theory Spec2Isabelle
  imports Complex_Main "HOL-Library.AList" "HOL-Library.Sublist"
begin

section \<open>Python values and the builtins used by the settings code\<close>

text \<open>
  A Python \<open>float\<close> is a finite number, an infinity or a NaN. A finite float is kept as the
  rational it denotes; rounding to binary64 is not modelled (no property below depends on
  the digits of a float, only on its kind).
\<close>

datatype pyfloat = Finite rat | PosInf | NegInf | NaN

text \<open>
  The values a settings dictionary can hold: what a JSON body decodes to, and tuples
  (the defaults and the presets hold tuples). A \<open>dict\<close> keeps its items in insertion
  order and its keys are distinct.
\<close>

datatype pyval =
    PNone
  | PBool bool
  | PInt int
  | PFloat pyfloat
  | PStr string
  | PList "pyval list"
  | PTuple "pyval list"
  | PDict "(string \<times> pyval) list"

type_synonym dict = "(string \<times> pyval) list"

type_synonym bytes = "char list"

text \<open>
  The exceptions that occur: the three a builtin conversion can raise (\<open>ValueError\<close> is
  also what \<open>apply_preset\<close> raises for an unknown name; its message is not kept), the
  \<open>RuntimeError\<close> of \<open>start_video\<close> with its message, and \<open>ExternalError\<close> for whatever an
  external collaborator (the picamera2 handle, the file system) raises.
\<close>

datatype exn = ValueError | TypeError | OverflowError | RuntimeError string | ExternalError

text \<open>
  Python's parsers of numeric strings (\<open>int(str)\<close>, \<open>float(str)\<close>) are builtins outside this
  repository. They are taken as parameters: \<open>None\<close> stands for the \<open>ValueError\<close> a string
  that does not parse raises.
\<close>

record py_str_parsing =
  int_of_str :: "string \<Rightarrow> int option"
  float_of_str :: "string \<Rightarrow> pyfloat option"

text \<open>\<open>bool(val)\<close>: truthiness. It raises on none of the values above.\<close>

fun py_bool :: "pyval \<Rightarrow> bool" where
  "py_bool PNone = False"
| "py_bool (PBool b) = b"
| "py_bool (PInt i) = (i \<noteq> 0)"
| "py_bool (PFloat f) = (f \<noteq> Finite 0)"
| "py_bool (PStr s) = (s \<noteq> [])"
| "py_bool (PList xs) = (xs \<noteq> [])"
| "py_bool (PTuple xs) = (xs \<noteq> [])"
| "py_bool (PDict kvs) = (kvs \<noteq> [])"

text \<open>\<open>int(f)\<close> on a finite float truncates towards zero.\<close>

definition trunc_rat :: "rat \<Rightarrow> int" where
  "trunc_rat q = (if 0 \<le> q then \<lfloor>q\<rfloor> else \<lceil>q\<rceil>)"

text \<open>
  \<open>int(val)\<close>: an infinity raises \<open>OverflowError\<close> ("cannot convert float infinity to
  integer"), a NaN raises \<open>ValueError\<close>, a container or \<open>None\<close> raises \<open>TypeError\<close>.
\<close>

fun py_int :: "py_str_parsing \<Rightarrow> pyval \<Rightarrow> exn + int" where
  "py_int P PNone = Inl TypeError"
| "py_int P (PBool b) = Inr (if b then 1 else 0)"
| "py_int P (PInt i) = Inr i"
| "py_int P (PFloat (Finite q)) = Inr (trunc_rat q)"
| "py_int P (PFloat PosInf) = Inl OverflowError"
| "py_int P (PFloat NegInf) = Inl OverflowError"
| "py_int P (PFloat NaN) = Inl ValueError"
| "py_int P (PStr s) = (case int_of_str P s of None \<Rightarrow> Inl ValueError | Some i \<Rightarrow> Inr i)"
| "py_int P (PList xs) = Inl TypeError"
| "py_int P (PTuple xs) = Inl TypeError"
| "py_int P (PDict kvs) = Inl TypeError"

text \<open>
  \<open>float(val)\<close>: an integer whose nearest binary64 value would be \<open>2 ^ 1024\<close> or more
  raises \<open>OverflowError\<close> ("int too large to convert to float"); with round-half-even
  that is every integer of magnitude at least \<open>2 ^ 1024 - 2 ^ 970\<close>.
\<close>

definition float_overflow_bound :: int where
  "float_overflow_bound = 2 ^ 1024 - 2 ^ 970"

fun py_float :: "py_str_parsing \<Rightarrow> pyval \<Rightarrow> exn + pyfloat" where
  "py_float P PNone = Inl TypeError"
| "py_float P (PBool b) = Inr (Finite (if b then 1 else 0))"
| "py_float P (PInt i) =
     (if float_overflow_bound \<le> \<bar>i\<bar> then Inl OverflowError else Inr (Finite (of_int i)))"
| "py_float P (PFloat f) = Inr f"
| "py_float P (PStr s) = (case float_of_str P s of None \<Rightarrow> Inl ValueError | Some f \<Rightarrow> Inr f)"
| "py_float P (PList xs) = Inl TypeError"
| "py_float P (PTuple xs) = Inl TypeError"
| "py_float P (PDict kvs) = Inl TypeError"

section \<open>The settings tables of camera.py\<close>

text \<open>\<open>d[key] = val\<close> and \<open>d.update(other)\<close> on an insertion-ordered dictionary.\<close>

definition dict_set :: "string \<Rightarrow> pyval \<Rightarrow> dict \<Rightarrow> dict" where
  "dict_set key val d = AList.update key val d"

definition dict_update :: "dict \<Rightarrow> dict \<Rightarrow> dict" where
  "dict_update d other = fold (\<lambda>(key, val) acc. dict_set key val acc) other d"

definition DEFAULT_SETTINGS :: dict where
  "DEFAULT_SETTINGS =
    [(''AeEnable'', PBool False),
     (''AwbEnable'', PBool False),
     (''ExposureTime'', PInt 4000000),
     (''AnalogueGain'', PFloat (Finite 4)),
     (''ColourGains'', PTuple [PFloat (Finite (3/2)), PFloat (Finite (3/2))]),
     (''Brightness'', PFloat (Finite 0)),
     (''Contrast'', PFloat (Finite 1)),
     (''Saturation'', PFloat (Finite 1)),
     (''Sharpness'', PFloat (Finite 1)),
     (''NoiseReductionMode'', PInt 2)]"

text \<open>
  \<open>CONTROL_META\<close>: of each control's metadata only the \<open>"type"\<close> entry is read by the code;
  the labels, ranges, steps and option names are for the user interface and are left out.
\<close>

datatype ctype = TBool | TInt | TFloat | TSelect | TTuple2

definition CONTROL_META :: "(string \<times> ctype) list" where
  "CONTROL_META =
    [(''AeEnable'', TBool),
     (''AwbEnable'', TBool),
     (''ExposureTime'', TInt),
     (''AnalogueGain'', TFloat),
     (''ColourGains'', TTuple2),
     (''Brightness'', TFloat),
     (''Contrast'', TFloat),
     (''Saturation'', TFloat),
     (''Sharpness'', TFloat),
     (''NoiseReductionMode'', TSelect),
     (''AfMode'', TSelect),
     (''LensPosition'', TFloat)]"

record preset =
  label :: string
  preset_settings :: dict

definition PRESETS :: "(string \<times> preset) list" where
  "PRESETS =
    [(''deep_sky'', \<lparr>label = ''Deep Sky (Long Exposure)'', preset_settings =
        [(''AeEnable'', PBool False),
         (''AwbEnable'', PBool False),
         (''ExposureTime'', PInt 30000000),
         (''AnalogueGain'', PFloat (Finite 8)),
         (''ColourGains'', PTuple [PFloat (Finite (3/2)), PFloat (Finite (3/2))]),
         (''NoiseReductionMode'', PInt 2),
         (''Contrast'', PFloat (Finite 1)),
         (''Saturation'', PFloat (Finite (6/5)))]\<rparr>),
     (''planetary'', \<lparr>label = ''Planetary / Moon (Short Exposure)'', preset_settings =
        [(''AeEnable'', PBool False),
         (''AwbEnable'', PBool False),
         (''ExposureTime'', PInt 10000),
         (''AnalogueGain'', PFloat (Finite 2)),
         (''ColourGains'', PTuple [PFloat (Finite (3/2)), PFloat (Finite (3/2))]),
         (''NoiseReductionMode'', PInt 1),
         (''Contrast'', PFloat (Finite (6/5))),
         (''Saturation'', PFloat (Finite 1))]\<rparr>),
     (''lucky_imaging'', \<lparr>label = ''Lucky Imaging (Video Burst)'', preset_settings =
        [(''AeEnable'', PBool False),
         (''AwbEnable'', PBool False),
         (''ExposureTime'', PInt 100000),
         (''AnalogueGain'', PFloat (Finite 4)),
         (''ColourGains'', PTuple [PFloat (Finite (3/2)), PFloat (Finite (3/2))]),
         (''NoiseReductionMode'', PInt 0),
         (''Contrast'', PFloat (Finite 1)),
         (''Saturation'', PFloat (Finite (4/5)))]\<rparr>),
     (''milky_way'', \<lparr>label = ''Milky Way / Wide Field'', preset_settings =
        [(''AeEnable'', PBool False),
         (''AwbEnable'', PBool False),
         (''ExposureTime'', PInt 15000000),
         (''AnalogueGain'', PFloat (Finite 16)),
         (''ColourGains'', PTuple [PFloat (Finite (9/5)), PFloat (Finite (7/5))]),
         (''NoiseReductionMode'', PInt 2),
         (''Contrast'', PFloat (Finite (11/10))),
         (''Saturation'', PFloat (Finite (13/10)))]\<rparr>)]"

section \<open>\<open>_coerce_settings\<close>\<close>

text \<open>
  The body of the \<open>try\<close> block for one item: \<open>Inr (Some v)\<close> when \<open>out[key] = v\<close> is
  executed, \<open>Inr None\<close> when the block ends without an assignment (a \<open>tuple2\<close> value that
  is not a list or tuple of length 2), \<open>Inl e\<close> when a conversion raises \<open>e\<close>.
\<close>

fun coerce_value :: "py_str_parsing \<Rightarrow> ctype \<Rightarrow> pyval \<Rightarrow> exn + pyval option" where
  "coerce_value P TBool val = Inr (Some (PBool (py_bool val)))"
| "coerce_value P TInt val =
     (case py_int P val of Inl e \<Rightarrow> Inl e | Inr i \<Rightarrow> Inr (Some (PInt i)))"
| "coerce_value P TFloat val =
     (case py_float P val of Inl e \<Rightarrow> Inl e | Inr f \<Rightarrow> Inr (Some (PFloat f)))"
| "coerce_value P TSelect val =
     (case py_int P val of Inl e \<Rightarrow> Inl e | Inr i \<Rightarrow> Inr (Some (PInt i)))"
| "coerce_value P TTuple2 (PList [a, b]) =
     (case py_float P a of Inl e \<Rightarrow> Inl e | Inr x \<Rightarrow>
        (case py_float P b of Inl e \<Rightarrow> Inl e | Inr y \<Rightarrow>
           Inr (Some (PTuple [PFloat x, PFloat y]))))"
| "coerce_value P TTuple2 (PTuple [a, b]) =
     (case py_float P a of Inl e \<Rightarrow> Inl e | Inr x \<Rightarrow>
        (case py_float P b of Inl e \<Rightarrow> Inl e | Inr y \<Rightarrow>
           Inr (Some (PTuple [PFloat x, PFloat y]))))"
| "coerce_value P TTuple2 val = Inr None"

text \<open>
  The loop over \<open>raw.items()\<close>, with the dictionary \<open>out\<close> built so far. The handler
  catches \<open>ValueError\<close> and \<open>TypeError\<close> (the item is logged and skipped); any other
  exception leaves the function.
\<close>

fun coerce_items :: "py_str_parsing \<Rightarrow> dict \<Rightarrow> dict \<Rightarrow> exn + dict" where
  "coerce_items P [] out = Inr out"
| "coerce_items P ((key, val) # rest) out =
     (case map_of CONTROL_META key of
        None \<Rightarrow> coerce_items P rest out
      | Some t \<Rightarrow>
         (case coerce_value P t val of
            Inr (Some v) \<Rightarrow> coerce_items P rest (dict_set key v out)
          | Inr None \<Rightarrow> coerce_items P rest out
          | Inl ValueError \<Rightarrow> coerce_items P rest out
          | Inl TypeError \<Rightarrow> coerce_items P rest out
          | Inl e \<Rightarrow> Inl e))"

definition coerce_settings :: "py_str_parsing \<Rightarrow> dict \<Rightarrow> exn + dict" where
  "coerce_settings P raw = coerce_items P raw []"

section \<open>Paths (pathlib, POSIX flavour)\<close>

text \<open>
  A path is the list of its parts; an absolute path has its root (\<open>/\<close>, or \<open>//\<close> for
  exactly two leading slashes) as first part. Parsing a string drops empty and \<open>.\<close>
  components and keeps \<open>..\<close>.
\<close>

type_synonym Path = "string list"

fun split_on :: "char \<Rightarrow> string \<Rightarrow> string list" where
  "split_on c [] = [[]]"
| "split_on c (x # xs) =
     (if x = c then [] # split_on c xs
      else (case split_on c xs of [] \<Rightarrow> [[x]] | w # ws \<Rightarrow> (x # w) # ws))"

definition path_root :: "string \<Rightarrow> string" where
  "path_root s =
     (if take 2 s = ''//'' \<and> take 3 s \<noteq> ''///'' then ''//''
      else if take 1 s = ''/'' then ''/'' else [])"

definition parse_path :: "string \<Rightarrow> Path" where
  "parse_path s =
     (let ps = filter (\<lambda>p. p \<noteq> [] \<and> p \<noteq> ''.'') (split_on CHR ''/'' s)
      in if path_root s = [] then ps else path_root s # ps)"

text \<open>\<open>base / name\<close>: an absolute right operand replaces the left one.\<close>

definition path_div :: "Path \<Rightarrow> string \<Rightarrow> Path" where
  "path_div base name = (if path_root name = [] then base @ parse_path name else parse_path name)"

fun join_parts :: "string list \<Rightarrow> string" where
  "join_parts [] = []"
| "join_parts [p] = p"
| "join_parts (p # q # ps) = p @ ''/'' @ join_parts (q # ps)"

text \<open>\<open>str(path)\<close> and \<open>path.name\<close>.\<close>

definition path_str :: "Path \<Rightarrow> string" where
  "path_str ps =
     (case ps of [] \<Rightarrow> ''.''
      | r # rest \<Rightarrow> if r = ''/'' \<or> r = ''//'' then r @ join_parts rest else join_parts ps)"


text \<open>\<open>s.endswith(suffix)\<close>.\<close>

definition endswith :: "string \<Rightarrow> string \<Rightarrow> bool" where
  "endswith s suf = (length suf \<le> length s \<and> drop (length s - length suf) s = suf)"

section \<open>Programs over a state that may raise\<close>

text \<open>
  A method is a function from the object's state to a result and the state it leaves. An
  exception is the result \<open>Inl e\<close>; the state is kept as it was when the exception was
  raised, since the object lives on after a failed call.
\<close>

type_synonym ('s, 'a) prog = "'s \<Rightarrow> (exn + 'a) \<times> 's"

definition return_prog :: "'a \<Rightarrow> ('s, 'a) prog" where
  "return_prog a = (\<lambda>s. (Inr a, s))"

definition raise_prog :: "exn \<Rightarrow> ('s, 'a) prog" where
  "raise_prog e = (\<lambda>s. (Inl e, s))"

definition gets :: "('s \<Rightarrow> 'a) \<Rightarrow> ('s, 'a) prog" where
  "gets g = (\<lambda>s. (Inr (g s), s))"

definition modify :: "('s \<Rightarrow> 's) \<Rightarrow> ('s, unit) prog" where
  "modify u = (\<lambda>s. (Inr (), u s))"

definition bind_prog :: "('s, 'a) prog \<Rightarrow> ('a \<Rightarrow> ('s, 'b) prog) \<Rightarrow> ('s, 'b) prog" where
  "bind_prog m f = (\<lambda>s. case m s of (Inl e, s') \<Rightarrow> (Inl e, s') | (Inr a, s') \<Rightarrow> f a s')"

definition seq_prog :: "('s, unit) prog \<Rightarrow> ('s, 'a) prog \<Rightarrow> ('s, 'a) prog" where
  "seq_prog m n = bind_prog m (\<lambda>_. n)"

text \<open>\<open>try: m except Exception: pass\<close>.\<close>

definition try_pass :: "('s, unit) prog \<Rightarrow> ('s, unit) prog" where
  "try_pass m = (\<lambda>s. case m s of (_, s') \<Rightarrow> (Inr (), s'))"

section \<open>The frame buffer\<close>

record StreamingOutput =
  frame :: "bytes option"

definition StreamingOutput_init :: StreamingOutput where
  "StreamingOutput_init = \<lparr>frame = None\<rparr>"

definition StreamingOutput_write :: "bytes \<Rightarrow> StreamingOutput \<Rightarrow> nat \<times> StreamingOutput" where
  "StreamingOutput_write buf out = (length buf, out\<lparr>frame := Some buf\<rparr>)"

text \<open>
  \<open>wait_for_frame\<close> takes the condition's lock, waits on the condition and returns
  \<open>self.frame\<close>. The wait releases the lock, so the producer can call \<open>write\<close> any number
  of times before the waiter holds the lock again: \<open>written\<close> lists those buffers in order.
  It is empty when the timeout elapses with no frame published.
\<close>

definition wait_for_frame :: "bytes list \<Rightarrow> StreamingOutput \<Rightarrow> bytes option \<times> StreamingOutput" where
  "wait_for_frame written out =
     (let out' = fold (\<lambda>buf acc. snd (StreamingOutput_write buf acc)) written out
      in (frame out', out'))"

section \<open>External collaborators\<close>

text \<open>
  The picamera2 handle and the file system are outside the repository. A call to one of
  them either raises or happens; the calls that happened are kept, in order, in the
  object's \<open>ext_log\<close>. Whether a call raises is given by an oracle over the calls made
  so far, so a theorem for every oracle holds for every behaviour of the collaborators.
\<close>

datatype encoder = MJPEGEncoder | H264Encoder int

datatype rec_output = FileOutput | FfmpegOutput "string option"

datatype ext_call =
    Fs_mkdir Path
  | Fs_write string bytes
  | Fs_touch string
  | Cam_open
  | Cam_create_video_configuration "int \<times> int" "(int \<times> int) option" "dict option"
  | Cam_create_still_configuration "int \<times> int" bool
  | Cam_configure
  | Cam_switch_mode
  | Cam_start
  | Cam_stop
  | Cam_start_recording encoder rec_output
  | Cam_stop_recording
  | Cam_capture_file string "string option"
  | Cam_set_controls dict

type_synonym ext_oracle = "ext_call list \<Rightarrow> ext_call \<Rightarrow> bool"

text \<open>The attributes the two camera classes share, and the log of external calls.\<close>

record camera_state =
  capture_dir :: Path
  settings :: dict
  recording :: bool
  recording_path :: "string option"
  ext_log :: "ext_call list"

definition ext :: "ext_oracle \<Rightarrow> ext_call \<Rightarrow> ('m camera_state_scheme, unit) prog" where
  "ext F c = (\<lambda>s. if F (ext_log s) c then (Inl ExternalError, s)
                   else (Inr (), s\<lparr>ext_log := ext_log s @ [c]\<rparr>))"

definition never_fails :: ext_oracle where
  "never_fails = (\<lambda>calls c. False)"

section \<open>\<open>RealCamera\<close>\<close>

record RealCamera = camera_state +
  streaming_output :: "StreamingOutput option"

definition PREVIEW_SIZE :: "int \<times> int" where "PREVIEW_SIZE = (1280, 720)"
definition CAPTURE_SIZE :: "int \<times> int" where "CAPTURE_SIZE = (4056, 3040)"
definition VIDEO_SIZE :: "int \<times> int" where "VIDEO_SIZE = (1920, 1080)"

definition configure_preview :: "ext_oracle \<Rightarrow> (RealCamera, unit) prog" where
  "configure_preview F =
     bind_prog (gets settings) (\<lambda>controls.
     seq_prog (ext F (Cam_create_video_configuration PREVIEW_SIZE (Some (640, 360)) (Some controls)))
    (seq_prog (ext F Cam_configure)
    (seq_prog (modify (\<lambda>s. s\<lparr>streaming_output := Some StreamingOutput_init\<rparr>))
              (ext F (Cam_start_recording MJPEGEncoder FileOutput)))))"

definition RealCamera_init :: "ext_oracle \<Rightarrow> Path \<Rightarrow> exn + RealCamera" where
  "RealCamera_init F dir =
     (case seq_prog (ext F (Fs_mkdir dir))
          (seq_prog (ext F Cam_open)
          (seq_prog (configure_preview F)
                    (ext F Cam_start)))
            \<lparr>capture_dir = dir, settings = DEFAULT_SETTINGS, recording = False,
             recording_path = None, ext_log = [], streaming_output = None\<rparr>
      of (Inl e, _) \<Rightarrow> Inl e | (Inr _, s) \<Rightarrow> Inr s)"

text \<open>
  \<open>get_frame\<close>; \<open>written\<close> are the buffers the encoder writes while the call waits
  (see \<open>wait_for_frame\<close>).
\<close>

definition RealCamera_get_frame :: "bytes list \<Rightarrow> (RealCamera, bytes option) prog" where
  "RealCamera_get_frame written =
     bind_prog (gets streaming_output) (\<lambda>so.
       case so of
         Some out \<Rightarrow>
           (let (fr, out') = wait_for_frame written out
            in seq_prog (modify (\<lambda>s. s\<lparr>streaming_output := Some out'\<rparr>)) (return_prog fr))
       | None \<Rightarrow> return_prog None)"

definition RealCamera_get_settings :: "(RealCamera, dict) prog" where
  "RealCamera_get_settings = gets settings"

definition RealCamera_apply_settings ::
    "py_str_parsing \<Rightarrow> ext_oracle \<Rightarrow> dict \<Rightarrow> (RealCamera, dict) prog" where
  "RealCamera_apply_settings P F new =
     (case coerce_settings P new of
        Inl e \<Rightarrow> raise_prog e
      | Inr coerced \<Rightarrow>
          seq_prog (modify (\<lambda>s. s\<lparr>settings := dict_update (settings s) coerced\<rparr>))
         (seq_prog (ext F (Cam_set_controls coerced))
                   (gets settings)))"

definition RealCamera_apply_preset ::
    "py_str_parsing \<Rightarrow> ext_oracle \<Rightarrow> string \<Rightarrow> (RealCamera, dict) prog" where
  "RealCamera_apply_preset P F preset_name =
     (case map_of PRESETS preset_name of
        None \<Rightarrow> raise_prog ValueError
      | Some p \<Rightarrow> RealCamera_apply_settings P F (preset_settings p))"

definition start_recording_internal :: "ext_oracle \<Rightarrow> (RealCamera, unit) prog" where
  "start_recording_internal F =
     seq_prog (ext F (Cam_create_video_configuration VIDEO_SIZE None None))
    (seq_prog (ext F Cam_configure)
    (bind_prog (gets recording_path) (\<lambda>path.
     seq_prog (ext F (Cam_start_recording (H264Encoder 10000000) (FfmpegOutput path)))
              (modify (\<lambda>s. s\<lparr>recording := True\<rparr>)))))"

text \<open>\<open>timestamp\<close> is what \<open>time.strftime("%Y%m%d_%H%M%S")\<close> returns at the call.\<close>

definition RealCamera_capture_photo ::
    "ext_oracle \<Rightarrow> string \<Rightarrow> bool \<Rightarrow> (RealCamera, string list) prog" where
  "RealCamera_capture_photo F timestamp capture_raw =
     bind_prog (gets recording) (\<lambda>was_recording.
     bind_prog (gets capture_dir) (\<lambda>dir.
       let jpeg_path = path_str (path_div dir (''photo_'' @ timestamp @ ''.jpg''));
           raw_path = path_str (path_div dir (''photo_'' @ timestamp @ ''.dng''))
       in
       seq_prog (ext F Cam_stop_recording)
      (seq_prog (ext F (Cam_create_still_configuration CAPTURE_SIZE capture_raw))
      (seq_prog (ext F Cam_switch_mode)
      (seq_prog (ext F Cam_start)
      (seq_prog (ext F (Cam_capture_file jpeg_path (if capture_raw then Some raw_path else None)))
      (seq_prog (configure_preview F)
      (seq_prog (ext F Cam_start)
      (seq_prog (if was_recording then start_recording_internal F else return_prog ())
                (return_prog (jpeg_path # (if capture_raw then [raw_path] else []))))))))))))"

definition RealCamera_start_video ::
    "ext_oracle \<Rightarrow> string \<Rightarrow> int \<Rightarrow> (RealCamera, string) prog" where
  "RealCamera_start_video F timestamp fps =
     bind_prog (gets capture_dir) (\<lambda>dir.
       let path = path_str (path_div dir (''video_'' @ timestamp @ ''.mp4'')) in
       bind_prog (gets recording) (\<lambda>rec.
         if rec then raise_prog (RuntimeError ''Already recording'')
         else seq_prog (modify (\<lambda>s. s\<lparr>recording_path := Some path\<rparr>))
             (seq_prog (start_recording_internal F)
                       (return_prog path))))"

definition RealCamera_stop_video :: "ext_oracle \<Rightarrow> (RealCamera, string option) prog" where
  "RealCamera_stop_video F =
     bind_prog (gets recording) (\<lambda>rec.
       if \<not> rec then return_prog None
       else seq_prog (ext F Cam_stop_recording)
           (seq_prog (modify (\<lambda>s. s\<lparr>recording := False\<rparr>))
           (bind_prog (gets recording_path) (\<lambda>path.
            seq_prog (modify (\<lambda>s. s\<lparr>recording_path := None\<rparr>))
           (seq_prog (configure_preview F)
                     (return_prog path))))))"

definition RealCamera_is_recording :: "(RealCamera, bool) prog" where
  "RealCamera_is_recording = gets recording"

definition RealCamera_close :: "ext_oracle \<Rightarrow> (RealCamera, unit) prog" where
  "RealCamera_close F =
     seq_prog (try_pass (ext F Cam_stop_recording)) (try_pass (ext F Cam_stop))"

section \<open>\<open>MockCamera\<close>\<close>

record MockCamera = camera_state +
  running :: bool
  current_frame :: "bytes option"

definition MockCamera_init :: "ext_oracle \<Rightarrow> Path \<Rightarrow> exn + MockCamera" where
  "MockCamera_init F dir =
     (case ext F (Fs_mkdir dir)
            \<lparr>capture_dir = dir, settings = DEFAULT_SETTINGS, recording = False,
             recording_path = None, ext_log = [], running = True, current_frame = None\<rparr>
      of (Inl e, _) \<Rightarrow> Inl e | (Inr _, s) \<Rightarrow> Inr s)"

text \<open>
  The frame thread (\<open>_generate_frames\<close>) renders a frame and stores it under the lock;
  what it does to the object is this assignment.
\<close>

definition generate_frame :: "bytes \<Rightarrow> MockCamera \<Rightarrow> MockCamera" where
  "generate_frame fr m = m\<lparr>current_frame := Some fr\<rparr>"

text \<open>\<open>get_frame\<close>; \<open>generated\<close> are the frames the frame thread stores while the call waits.\<close>

definition MockCamera_get_frame :: "bytes list \<Rightarrow> (MockCamera, bytes option) prog" where
  "MockCamera_get_frame generated =
     seq_prog (modify (\<lambda>m. fold generate_frame generated m)) (gets current_frame)"

definition MockCamera_get_settings :: "(MockCamera, dict) prog" where
  "MockCamera_get_settings = gets settings"

definition MockCamera_apply_settings ::
    "py_str_parsing \<Rightarrow> dict \<Rightarrow> (MockCamera, dict) prog" where
  "MockCamera_apply_settings P new =
     (case coerce_settings P new of
        Inl e \<Rightarrow> raise_prog e
      | Inr coerced \<Rightarrow>
          seq_prog (modify (\<lambda>s. s\<lparr>settings := dict_update (settings s) coerced\<rparr>))
                   (gets settings))"

definition MockCamera_apply_preset ::
    "py_str_parsing \<Rightarrow> string \<Rightarrow> (MockCamera, dict) prog" where
  "MockCamera_apply_preset P preset_name =
     (case map_of PRESETS preset_name of
        None \<Rightarrow> raise_prog ValueError
      | Some p \<Rightarrow> MockCamera_apply_settings P (preset_settings p))"

definition MockCamera_capture_photo ::
    "ext_oracle \<Rightarrow> string \<Rightarrow> bool \<Rightarrow> (MockCamera, string list) prog" where
  "MockCamera_capture_photo F timestamp capture_raw =
     bind_prog (gets current_frame) (\<lambda>fr.
     bind_prog (gets capture_dir) (\<lambda>dir.
     bind_prog
       (case fr of
          None \<Rightarrow> return_prog []
        | Some data \<Rightarrow>
            if data \<noteq> [] then
              (let jpeg_path = path_str (path_div dir (''photo_'' @ timestamp @ ''.jpg''))
               in seq_prog (ext F (Fs_write jpeg_path data)) (return_prog [jpeg_path]))
            else return_prog [])
       (\<lambda>files.
          if capture_raw then
            (let raw_path = path_str (path_div dir (''photo_'' @ timestamp @ ''.dng''))
             in seq_prog (ext F (Fs_write raw_path ''DNG_PLACEHOLDER_DEMO''))
                         (return_prog (files @ [raw_path])))
          else return_prog files)))"

definition MockCamera_start_video ::
    "ext_oracle \<Rightarrow> string \<Rightarrow> int \<Rightarrow> (MockCamera, string) prog" where
  "MockCamera_start_video F timestamp fps =
     bind_prog (gets recording) (\<lambda>rec.
       if rec then raise_prog (RuntimeError ''Already recording'')
       else
         bind_prog (gets capture_dir) (\<lambda>dir.
           let path = path_str (path_div dir (''video_'' @ timestamp @ ''.mp4'')) in
           seq_prog (modify (\<lambda>s. s\<lparr>recording := True\<rparr>))
          (seq_prog (modify (\<lambda>s. s\<lparr>recording_path := Some path\<rparr>))
          (seq_prog (ext F (Fs_touch path))
                    (return_prog path)))))"

definition MockCamera_stop_video :: "(MockCamera, string option) prog" where
  "MockCamera_stop_video =
     bind_prog (gets recording) (\<lambda>rec.
       if \<not> rec then return_prog None
       else seq_prog (modify (\<lambda>s. s\<lparr>recording := False\<rparr>))
           (bind_prog (gets recording_path) (\<lambda>path.
            seq_prog (modify (\<lambda>s. s\<lparr>recording_path := None\<rparr>))
                     (return_prog path))))"

definition MockCamera_is_recording :: "(MockCamera, bool) prog" where
  "MockCamera_is_recording = gets recording"

definition MockCamera_close :: "(MockCamera, unit) prog" where
  "MockCamera_close = modify (\<lambda>m. m\<lparr>running := False\<rparr>)"

section \<open>Sessions\<close>

text \<open>
  The public interface as data: a session is a sequence of calls on one camera object.
  A call that raises leaves the object in the state it had reached.
\<close>

datatype camera_op =
    Get_frame "bytes list"
  | Get_settings
  | Apply_settings dict
  | Apply_preset string
  | Capture_photo string bool
  | Start_video string int
  | Stop_video
  | Is_recording
  | Close

fun RealCamera_call :: "py_str_parsing \<Rightarrow> ext_oracle \<Rightarrow> camera_op \<Rightarrow> RealCamera \<Rightarrow> RealCamera" where
  "RealCamera_call P F (Get_frame written) r = snd (RealCamera_get_frame written r)"
| "RealCamera_call P F Get_settings r = snd (RealCamera_get_settings r)"
| "RealCamera_call P F (Apply_settings new) r = snd (RealCamera_apply_settings P F new r)"
| "RealCamera_call P F (Apply_preset name) r = snd (RealCamera_apply_preset P F name r)"
| "RealCamera_call P F (Capture_photo timestamp raw) r = snd (RealCamera_capture_photo F timestamp raw r)"
| "RealCamera_call P F (Start_video timestamp fps) r = snd (RealCamera_start_video F timestamp fps r)"
| "RealCamera_call P F Stop_video r = snd (RealCamera_stop_video F r)"
| "RealCamera_call P F Is_recording r = snd (RealCamera_is_recording r)"
| "RealCamera_call P F Close r = snd (RealCamera_close F r)"

fun MockCamera_call :: "py_str_parsing \<Rightarrow> ext_oracle \<Rightarrow> camera_op \<Rightarrow> MockCamera \<Rightarrow> MockCamera" where
  "MockCamera_call P F (Get_frame generated) m = snd (MockCamera_get_frame generated m)"
| "MockCamera_call P F Get_settings m = snd (MockCamera_get_settings m)"
| "MockCamera_call P F (Apply_settings new) m = snd (MockCamera_apply_settings P new m)"
| "MockCamera_call P F (Apply_preset name) m = snd (MockCamera_apply_preset P name m)"
| "MockCamera_call P F (Capture_photo timestamp raw) m = snd (MockCamera_capture_photo F timestamp raw m)"
| "MockCamera_call P F (Start_video timestamp fps) m = snd (MockCamera_start_video F timestamp fps m)"
| "MockCamera_call P F Stop_video m = snd (MockCamera_stop_video m)"
| "MockCamera_call P F Is_recording m = snd (MockCamera_is_recording m)"
| "MockCamera_call P F Close m = snd (MockCamera_close m)"

definition RealCamera_session ::
    "py_str_parsing \<Rightarrow> ext_oracle \<Rightarrow> camera_op list \<Rightarrow> RealCamera \<Rightarrow> RealCamera" where
  "RealCamera_session P F ops r = fold (RealCamera_call P F) ops r"

definition MockCamera_session ::
    "py_str_parsing \<Rightarrow> ext_oracle \<Rightarrow> camera_op list \<Rightarrow> MockCamera \<Rightarrow> MockCamera" where
  "MockCamera_session P F ops m = fold (MockCamera_call P F) ops m"

section \<open>main.py\<close>

datatype camera = Real RealCamera | Mock MockCamera

definition create_camera :: "bool \<Rightarrow> ext_oracle \<Rightarrow> Path \<Rightarrow> exn + camera" where
  "create_camera PICAMERA2_AVAILABLE F dir =
     (let mock = (case MockCamera_init F dir of Inl e \<Rightarrow> Inl e | Inr m \<Rightarrow> Inr (Mock m))
      in if PICAMERA2_AVAILABLE then
           (case RealCamera_init F dir of Inr r \<Rightarrow> Inr (Real r) | Inl e \<Rightarrow> mock)
         else mock)"


definition camera_is_recording :: "camera \<Rightarrow> bool" where
  "camera_is_recording cam = (case cam of Real r \<Rightarrow> recording r | Mock m \<Rightarrow> recording m)"

text \<open>
  What a handler answers: an \<open>HTTPException\<close> with its status and detail, a JSON body, or
  a file. The detail is a literal text or \<open>str(exc)\<close> of a caught exception.
\<close>

datatype detail = Text string | StrOf exn

datatype response =
    HTTPException nat detail
  | JSONResponse pyval
  | FileResponse string string string


subsection \<open>File download and deletion\<close>

text \<open>
  The host the handlers run on: how paths resolve (symbolic links, the working
  directory; \<open>resolve\<close> may raise), which paths exist and are regular files, whether
  \<open>unlink\<close> raises, and the table of \<open>mimetypes.guess_type\<close>. Each access a handler makes
  to the file system is recorded, in order.
\<close>

record host =
  resolve :: "Path \<Rightarrow> exn + Path"
  path_exists :: "Path \<Rightarrow> bool"
  path_is_file :: "Path \<Rightarrow> bool"
  unlink :: "Path \<Rightarrow> exn option"
  guess_type :: "string \<Rightarrow> string option"

datatype fs_access = Resolve Path | Exists Path | Is_file Path | Unlink Path | Serve Path

text \<open>\<open>p.relative_to(other)\<close> raises \<open>ValueError\<close> unless the parts of \<open>other\<close> begin \<open>p\<close>.\<close>

definition relative_to :: "Path \<Rightarrow> Path \<Rightarrow> exn + Path" where
  "relative_to p other = (if prefix other p then Inr (drop (length other) p) else Inl ValueError)"

text \<open>The expression \<open>path.resolve().relative_to(CAPTURES_DIR.resolve())\<close> and its accesses.\<close>

definition resolve_relative :: "host \<Rightarrow> Path \<Rightarrow> Path \<Rightarrow> (exn + Path) \<times> fs_access list" where
  "resolve_relative H path CAPTURES_DIR =
     (case resolve H path of
        Inl e \<Rightarrow> (Inl e, [Resolve path])
      | Inr rp \<Rightarrow>
          (case resolve H CAPTURES_DIR of
             Inl e \<Rightarrow> (Inl e, [Resolve path, Resolve CAPTURES_DIR])
           | Inr rc \<Rightarrow> (relative_to rp rc, [Resolve path, Resolve CAPTURES_DIR])))"

text \<open>
  The handlers return what the client is answered (\<open>Inr\<close>), or the exception that leaves
  the handler (\<open>Inl\<close>), and the accesses made.
\<close>

definition download_file :: "host \<Rightarrow> Path \<Rightarrow> string \<Rightarrow> (exn + response) \<times> fs_access list" where
  "download_file H CAPTURES_DIR filename =
     (let path = path_div CAPTURES_DIR filename
      in case resolve_relative H path CAPTURES_DIR of
           (Inl ValueError, acc) \<Rightarrow> (Inr (HTTPException 403 (Text ''Forbidden'')), acc)
         | (Inl e, acc) \<Rightarrow> (Inl e, acc)
         | (Inr _, acc) \<Rightarrow>
             if \<not> path_exists H path then
               (Inr (HTTPException 404 (Text ''File not found'')), acc @ [Exists path])
             else if \<not> path_is_file H path then
               (Inr (HTTPException 404 (Text ''File not found'')),
                acc @ [Exists path, Is_file path])
             else
               (Inr (FileResponse (path_str path) filename
                      (case guess_type H filename of
                         None \<Rightarrow> ''application/octet-stream''
                       | Some t \<Rightarrow> if t = [] then ''application/octet-stream'' else t)),
                acc @ [Exists path, Is_file path, Serve path]))"

definition delete_file :: "host \<Rightarrow> Path \<Rightarrow> string \<Rightarrow> (exn + response) \<times> fs_access list" where
  "delete_file H CAPTURES_DIR filename =
     (let path = path_div CAPTURES_DIR filename
      in case resolve_relative H path CAPTURES_DIR of
           (Inl ValueError, acc) \<Rightarrow> (Inr (HTTPException 403 (Text ''Forbidden'')), acc)
         | (Inl e, acc) \<Rightarrow> (Inl e, acc)
         | (Inr _, acc) \<Rightarrow>
             if \<not> path_exists H path then
               (Inr (HTTPException 404 (Text ''File not found'')), acc @ [Exists path])
             else if \<not> path_is_file H path then
               (Inr (HTTPException 404 (Text ''File not found'')),
                acc @ [Exists path, Is_file path])
             else
               (case unlink H path of
                  Some e \<Rightarrow> (Inl e, acc @ [Exists path, Is_file path, Unlink path])
                | None \<Rightarrow>
                    (Inr (JSONResponse (PDict [(''deleted'', PStr filename)])),
                     acc @ [Exists path, Is_file path, Unlink path])))"

section \<open>Concrete instances for evaluation\<close>

text \<open>
  A parser of plain decimal literals (an optional minus sign, digits, at most one point).
  On these Python's \<open>int\<close> and \<open>float\<close> agree with it (up to the rounding of floats); it
  instantiates the string parsers where a statement is evaluated at a concrete input.
\<close>

definition digit_of :: "char \<Rightarrow> nat option" where
  "digit_of c = (let n = (of_char c :: nat) in if 48 \<le> n \<and> n \<le> 57 then Some (n - 48) else None)"

fun digits_value :: "nat \<Rightarrow> string \<Rightarrow> nat option" where
  "digits_value acc [] = Some acc"
| "digits_value acc (c # cs) =
     (case digit_of c of None \<Rightarrow> None | Some d \<Rightarrow> digits_value (10 * acc + d) cs)"

definition decimal_int :: "string \<Rightarrow> int option" where
  "decimal_int s =
     (let neg = (s \<noteq> [] \<and> hd s = CHR ''-''); body = (if neg then tl s else s)
      in if body = [] then None
         else map_option (\<lambda>n. if neg then - int n else int n) (digits_value 0 body))"

definition decimal_float :: "string \<Rightarrow> pyfloat option" where
  "decimal_float s =
     (let neg = (s \<noteq> [] \<and> hd s = CHR ''-''); body = (if neg then tl s else s);
          ip = takeWhile (\<lambda>c. c \<noteq> CHR ''.'') body; fp = drop (length ip + 1) body
      in if ip = [] then None
         else map_option
                (\<lambda>n. Finite ((if neg then - 1 else 1) * of_nat n / 10 ^ length fp))
                (digits_value 0 (ip @ fp)))"

definition decimal_parsing :: py_str_parsing where
  "decimal_parsing = \<lparr>int_of_str = decimal_int, float_of_str = decimal_float\<rparr>"

text \<open>A host without symbolic links: \<open>resolve\<close> removes \<open>..\<close> lexically and never raises.\<close>

fun normalise :: "Path \<Rightarrow> Path \<Rightarrow> Path" where
  "normalise done [] = rev done"
| "normalise done (p # ps) =
     (if p = ''..'' then
        (case done of
           [] \<Rightarrow> normalise [] ps
         | d # ds \<Rightarrow> if d = ''/'' \<or> d = ''//'' then normalise done ps else normalise ds ps)
      else normalise (p # done) ps)"

definition plain_host :: "Path list \<Rightarrow> host" where
  "plain_host files =
     \<lparr>resolve = (\<lambda>p. Inr (normalise [] p)),
      path_exists = (\<lambda>p. normalise [] p \<in> set files),
      path_is_file = (\<lambda>p. normalise [] p \<in> set files),
      unlink = (\<lambda>p. None),
      guess_type = (\<lambda>name. if endswith name ''.jpg'' then Some ''image/jpeg'' else None)\<rparr>"

text \<open>Camera objects in the two steady modes, for evaluation.\<close>

definition demo_dir :: Path where
  "demo_dir = [''/'', ''var'', ''lib'', ''astrocam'', ''captures'']"

definition demo_video :: string where
  "demo_video = ''/var/lib/astrocam/captures/video_20260101_000000.mp4''"

definition real_preview :: RealCamera where
  "real_preview =
     \<lparr>capture_dir = demo_dir, settings = DEFAULT_SETTINGS, recording = False,
      recording_path = None, ext_log = [], streaming_output = Some StreamingOutput_init\<rparr>"

definition real_recording :: RealCamera where
  "real_recording = real_preview\<lparr>recording := True, recording_path := Some demo_video\<rparr>"

definition mock_preview :: MockCamera where
  "mock_preview =
     \<lparr>capture_dir = demo_dir, settings = DEFAULT_SETTINGS, recording = False,
      recording_path = None, ext_log = [], running = True, current_frame = None\<rparr>"

definition mock_recording :: MockCamera where
  "mock_recording = mock_preview\<lparr>recording := True, recording_path := Some demo_video\<rparr>"

text \<open>A mock camera whose frame thread has stored a frame.\<close>

definition demo_frame :: bytes where
  "demo_frame = ''JPEG-DATA''"

definition mock_with_frame :: MockCamera where
  "mock_with_frame = generate_frame demo_frame mock_preview"

text \<open>
  The real and the mock camera agree on what the public interface shows of the session:
  the capture directory, the settings, the recording flag and the recording path.
\<close>

definition same_session :: "RealCamera \<Rightarrow> MockCamera \<Rightarrow> bool" where
  "same_session r m =
     (capture_dir r = capture_dir m \<and> settings r = settings m \<and>
      recording r = recording m \<and> recording_path r = recording_path m)"

section \<open>Properties of the settings state\<close>

text \<open>The runtime type of a value matches a declared control type.\<close>

fun has_type :: "ctype \<Rightarrow> pyval \<Rightarrow> bool" where
  "has_type TBool (PBool b) = True"
| "has_type TInt (PInt i) = True"
| "has_type TSelect (PInt i) = True"
| "has_type TFloat (PFloat f) = True"
| "has_type TTuple2 (PTuple [PFloat a, PFloat b]) = True"
| "has_type t v = False"

text \<open>Every stored key is a control and every stored value has the control's type.\<close>

definition settings_ok :: "dict \<Rightarrow> bool" where
  "settings_ok d =
     list_all (\<lambda>(key, val). case map_of CONTROL_META key of
                                None \<Rightarrow> False
                              | Some t \<Rightarrow> has_type t val) d"

text \<open>
  A call on the real camera and a call on the mock camera have the same outcome: the same
  result or exception, and states that agree on the session.
\<close>

definition same_outcome :: "(exn + 'a) \<times> RealCamera \<Rightarrow> (exn + 'a) \<times> MockCamera \<Rightarrow> bool" where
  "same_outcome x y = (fst x = fst y \<and> same_session (snd x) (snd y))"

text \<open>Collaborators of which every call raises.\<close>

definition always_fails :: ext_oracle where
  "always_fails = (\<lambda>calls c. True)"

text \<open>A program leaves an attribute of the state as it found it, whether it raises or not.\<close>

definition preserves :: "('s \<Rightarrow> 'b) \<Rightarrow> ('s, 'a) prog \<Rightarrow> bool" where
  "preserves g m = (\<forall>s. g (snd (m s)) = g s)"

section \<open>Running programs\<close>

lemma return_prog_apply [simp]: "return_prog a s = (Inr a, s)"
  by (simp add: return_prog_def)

lemma raise_prog_apply [simp]: "raise_prog e s = (Inl e, s)"
  by (simp add: raise_prog_def)

lemma gets_apply [simp]: "gets g s = (Inr (g s), s)"
  by (simp add: gets_def)

lemma modify_apply [simp]: "modify u s = (Inr (), u s)"
  by (simp add: modify_def)

lemma bind_prog_apply:
  "bind_prog m f s = (case m s of (Inl e, s') \<Rightarrow> (Inl e, s') | (Inr a, s') \<Rightarrow> f a s')"
  by (simp add: bind_prog_def)

lemma bind_gets [simp]: "bind_prog (gets g) f s = f (g s) s"
  by (simp add: bind_prog_def)

lemma seq_modify [simp]: "seq_prog (modify u) n s = n (u s)"
  by (simp add: seq_prog_def bind_prog_def)

lemma seq_ext [simp]:
  "seq_prog (ext F c) n s =
     (if F (ext_log s) c then (Inl ExternalError, s) else n (s\<lparr>ext_log := ext_log s @ [c]\<rparr>))"
  by (simp add: seq_prog_def bind_prog_def ext_def)

lemma never_fails_apply [simp]: "never_fails calls c = False"
  by (simp add: never_fails_def)

lemma seq_seq [simp]: "seq_prog (seq_prog a b) n = seq_prog a (seq_prog b n)"
  by (auto simp: seq_prog_def bind_prog_def fun_eq_iff split: prod.splits sum.splits)

lemma seq_bind [simp]: "seq_prog (bind_prog m f) n = bind_prog m (\<lambda>x. seq_prog (f x) n)"
  by (auto simp: seq_prog_def bind_prog_def fun_eq_iff split: prod.splits sum.splits)

lemma bind_seq [simp]: "bind_prog (seq_prog a b) f = seq_prog a (bind_prog b f)"
  by (auto simp: seq_prog_def bind_prog_def fun_eq_iff split: prod.splits sum.splits)

lemma bind_bind [simp]: "bind_prog (bind_prog m f) g = bind_prog m (\<lambda>x. bind_prog (f x) g)"
  by (auto simp: bind_prog_def fun_eq_iff split: prod.splits sum.splits)

lemma bind_return [simp]: "bind_prog (return_prog a) f = f a"
  by (simp add: bind_prog_def return_prog_def fun_eq_iff)

lemma seq_return [simp]: "seq_prog (return_prog u) n = n"
  by (simp add: seq_prog_def)

lemma bind_raise [simp]: "bind_prog (raise_prog e) f = raise_prog e"
  by (simp add: bind_prog_def raise_prog_def fun_eq_iff)

lemma seq_raise [simp]: "seq_prog (raise_prog e) n = raise_prog e"
  by (simp add: seq_prog_def)

lemma seq_if [simp]:
  "seq_prog (if b then m else m') n = (if b then seq_prog m n else seq_prog m' n)"
  by simp

lemma bind_if [simp]:
  "bind_prog (if b then m else m') f = (if b then bind_prog m f else bind_prog m' f)"
  by simp

lemma ext_apply:
  "ext F c s = (if F (ext_log s) c then (Inl ExternalError, s)
                else (Inr (), s\<lparr>ext_log := ext_log s @ [c]\<rparr>))"
  by (simp add: ext_def)

section \<open>The video state machine\<close>

text \<open>
  Claim C2. In every state of a camera object in which a recording is active,
  \<open>start_video\<close> raises \<open>RuntimeError("Already recording")\<close> and leaves the object as it
  was: \<open>is_recording\<close> stays true and the recording's output path is not modified. This
  holds for the real and for the mock camera, whatever the collaborators do.
\<close>

theorem start_video_while_recording:
  "(recording r \<longrightarrow>
      RealCamera_start_video F timestamp fps r = (Inl (RuntimeError ''Already recording''), r)) \<and>
   (recording m \<longrightarrow>
      MockCamera_start_video G timestamp fps m = (Inl (RuntimeError ''Already recording''), m))"
  by (simp add: RealCamera_start_video_def MockCamera_start_video_def Let_def)

theorem start_video_while_recording_witness:
  "recording real_recording \<and>
   RealCamera_start_video never_fails ''20260101_000005'' 25 real_recording
     = (Inl (RuntimeError ''Already recording''), real_recording) \<and>
   recording mock_recording \<and>
   MockCamera_start_video never_fails ''20260101_000005'' 25 mock_recording
     = (Inl (RuntimeError ''Already recording''), mock_recording)"
  using start_video_while_recording
          [of real_recording never_fails "''20260101_000005''" 25 mock_recording never_fails]
  by (simp add: real_recording_def mock_recording_def)




section \<open>Names of captured files\<close>

lemma split_on_nonempty [simp]: "split_on c s \<noteq> []"
  by (induction s) (auto split: list.splits)






lemma endswith_append [simp]: "endswith (pre @ suf) suf"
  by (simp add: endswith_def)

lemma endswith_append2 [simp]: "endswith (pre @ l @ suf) suf"
  using endswith_append [of "pre @ l" suf] by simp




section \<open>Still capture\<close>

lemma seq_ext_InrD:
  "seq_prog (ext F c) n s = (Inr a, s') \<Longrightarrow> n (s\<lparr>ext_log := ext_log s @ [c]\<rparr>) = (Inr a, s')"
  by (simp split: if_splits)

lemma configure_preview_InrE:
  assumes "seq_prog (configure_preview F) n s = (Inr a, s')"
  obtains s1 where "n s1 = (Inr a, s')" "recording s1 = recording s"
    "recording_path s1 = recording_path s" "settings s1 = settings s"
    "capture_dir s1 = capture_dir s"
proof -
  from assms have
    "n (s\<lparr>ext_log := ext_log s @ [Cam_create_video_configuration PREVIEW_SIZE (Some (640, 360))
                                     (Some (settings s)), Cam_configure],
          streaming_output := Some StreamingOutput_init,
          ext_log := ext_log s @ [Cam_create_video_configuration PREVIEW_SIZE (Some (640, 360))
                                     (Some (settings s)), Cam_configure,
                                  Cam_start_recording MJPEGEncoder FileOutput]\<rparr>) = (Inr a, s')"
    by (simp add: configure_preview_def split: if_splits)
  then show thesis by (rule that) simp_all
qed

lemma start_recording_internal_InrE:
  assumes "seq_prog (start_recording_internal F) n s = (Inr a, s')"
  obtains s1 where "n s1 = (Inr a, s')" "recording s1"
    "recording_path s1 = recording_path s" "settings s1 = settings s"
    "capture_dir s1 = capture_dir s" "ext_log s1 \<noteq> []"
    "last (ext_log s1)
       = Cam_start_recording (H264Encoder 10000000) (FfmpegOutput (recording_path s))"
proof -
  from assms have
    "n (s\<lparr>ext_log := ext_log s @ [Cam_create_video_configuration VIDEO_SIZE None None,
                                  Cam_configure,
                                  Cam_start_recording (H264Encoder 10000000)
                                    (FfmpegOutput (recording_path s))],
          recording := True\<rparr>) = (Inr a, s')"
    by (simp add: start_recording_internal_def split: if_splits)
  then show thesis by (rule that) simp_all
qed

lemma RealCamera_capture_photo_Inr:
  assumes "RealCamera_capture_photo F timestamp capture_raw r = (Inr files, r')"
  shows "recording r' = recording r \<and> recording_path r' = recording_path r \<and>
         settings r' = settings r \<and> capture_dir r' = capture_dir r \<and>
         files = path_str (path_div (capture_dir r) (''photo_'' @ timestamp @ ''.jpg''))
                 # (if capture_raw
                    then [path_str (path_div (capture_dir r) (''photo_'' @ timestamp @ ''.dng''))]
                    else []) \<and>
         (recording r \<longrightarrow>
            ext_log r' \<noteq> [] \<and>
            last (ext_log r')
              = Cam_start_recording (H264Encoder 10000000) (FfmpegOutput (recording_path r)))"
  using assms
  apply (simp only: RealCamera_capture_photo_def Let_def bind_gets)
  apply (drule seq_ext_InrD)+
  apply (erule configure_preview_InrE)
  apply (drule seq_ext_InrD)
  apply (cases "recording r")
   apply (simp only: if_True)
   apply (erule start_recording_internal_InrE)
   apply auto[1]
  apply auto
  done

lemma RealCamera_capture_photo_total:
  assumes "\<forall>calls c. \<not> F calls c"
  shows "\<exists>fs r''. RealCamera_capture_photo F timestamp capture_raw r = (Inr fs, r'')"
  using assms
  by (simp add: RealCamera_capture_photo_def configure_preview_def
        start_recording_internal_def Let_def)

lemma MockCamera_capture_photo_keeps:
  "recording (snd (MockCamera_capture_photo G timestamp capture_raw m)) = recording m \<and>
   recording_path (snd (MockCamera_capture_photo G timestamp capture_raw m)) = recording_path m \<and>
   settings (snd (MockCamera_capture_photo G timestamp capture_raw m)) = settings m \<and>
   capture_dir (snd (MockCamera_capture_photo G timestamp capture_raw m)) = capture_dir m"
  by (simp add: MockCamera_capture_photo_def Let_def ext_apply bind_prog_apply
        split: option.splits)

text \<open>
  Claim C1. A \<open>capture_photo\<close> call that returns leaves the object in the mode it was in:
  \<open>is_recording\<close> and the recording path are what they were before the call. When a
  recording was active, the last call made on the camera handle starts the H264 recording
  again, writing to the same output path. This holds for every behaviour of the
  collaborators; and when their calls succeed, \<open>capture_photo\<close> does return.
\<close>

theorem capture_photo_round_trip:
  "(RealCamera_capture_photo F timestamp capture_raw r = (Inr files, r') \<longrightarrow>
      recording r' = recording r \<and> recording_path r' = recording_path r \<and>
      (recording r \<longrightarrow>
         ext_log r' \<noteq> [] \<and>
         last (ext_log r')
           = Cam_start_recording (H264Encoder 10000000) (FfmpegOutput (recording_path r)))) \<and>
   (MockCamera_capture_photo G timestamp capture_raw m = (Inr files', m') \<longrightarrow>
      recording m' = recording m \<and> recording_path m' = recording_path m) \<and>
   ((\<forall>calls c. \<not> F calls c) \<longrightarrow>
      (\<exists>fs r''. RealCamera_capture_photo F timestamp capture_raw r = (Inr fs, r'')))"
proof (intro conjI impI)
  assume "RealCamera_capture_photo F timestamp capture_raw r = (Inr files, r')"
  note real = RealCamera_capture_photo_Inr [OF this]
  from real show "recording r' = recording r" by simp
  from real show "recording_path r' = recording_path r" by simp
  assume "recording r"
  with real show "ext_log r' \<noteq> []" by simp
  from real \<open>recording r\<close> show "last (ext_log r')
      = Cam_start_recording (H264Encoder 10000000) (FfmpegOutput (recording_path r))"
    by simp
next
  assume h: "MockCamera_capture_photo G timestamp capture_raw m = (Inr files', m')"
  from MockCamera_capture_photo_keeps [of G timestamp capture_raw m] h
  show "recording m' = recording m" by simp
  from MockCamera_capture_photo_keeps [of G timestamp capture_raw m] h
  show "recording_path m' = recording_path m" by simp
next
  assume "\<forall>calls c. \<not> F calls c"
  then show "\<exists>fs r''. RealCamera_capture_photo F timestamp capture_raw r = (Inr fs, r'')"
    by (rule RealCamera_capture_photo_total)
qed

theorem capture_photo_round_trip_witness:
  "RealCamera_capture_photo never_fails ''20260101_000007'' False real_recording
     = (Inr [''/var/lib/astrocam/captures/photo_20260101_000007.jpg''],
        snd (RealCamera_capture_photo never_fails ''20260101_000007'' False real_recording)) \<and>
   recording real_recording \<and> (\<forall>calls c. \<not> never_fails calls c) \<and>
   recording (snd (RealCamera_capture_photo never_fails ''20260101_000007'' False real_recording)) \<and>
   recording_path (snd (RealCamera_capture_photo never_fails ''20260101_000007'' False real_recording))
     = Some demo_video \<and>
   last (ext_log (snd (RealCamera_capture_photo never_fails ''20260101_000007'' False real_recording)))
     = Cam_start_recording (H264Encoder 10000000) (FfmpegOutput (Some demo_video)) \<and>
   MockCamera_capture_photo never_fails ''20260101_000007'' False mock_recording
     = (Inr [], mock_recording) \<and>
   recording mock_recording"
proof -
  have run: "RealCamera_capture_photo never_fails ''20260101_000007'' False real_recording
     = (Inr [''/var/lib/astrocam/captures/photo_20260101_000007.jpg''],
        snd (RealCamera_capture_photo never_fails ''20260101_000007'' False real_recording))"
    by (simp add: RealCamera_capture_photo_def configure_preview_def
          start_recording_internal_def real_recording_def real_preview_def demo_dir_def
          Let_def path_div_def path_root_def parse_path_def path_str_def)
  have mock: "MockCamera_capture_photo never_fails ''20260101_000007'' False mock_recording
     = (Inr [], mock_recording)"
    by (simp add: MockCamera_capture_photo_def mock_recording_def mock_preview_def)
  have rec: "recording real_recording" "recording_path real_recording = Some demo_video"
    "recording mock_recording"
    by (simp_all add: real_recording_def mock_recording_def)
  from capture_photo_round_trip
         [of never_fails "''20260101_000007''" False real_recording
             "[''/var/lib/astrocam/captures/photo_20260101_000007.jpg'']"
             "snd (RealCamera_capture_photo never_fails ''20260101_000007'' False real_recording)"
             never_fails mock_recording "[]" mock_recording]
       run mock rec
  show ?thesis by simp
qed

section \<open>The files a capture returns\<close>







section \<open>Waiting for a frame\<close>

lemma frame_after_writes:
  "frame (fold (\<lambda>buf acc. snd (StreamingOutput_write buf acc)) written out)
     = (if written = [] then frame out else Some (last written))"
  by (induction written arbitrary: out) (auto simp: StreamingOutput_write_def)

lemma current_frame_after_generated:
  "current_frame (fold generate_frame generated m)
     = (if generated = [] then current_frame m else Some (last generated))"
  by (induction generated arbitrary: m) (auto simp: generate_frame_def)

text \<open>
  A frame was published before the call and none during it: the call returns that
  earlier frame, not \<open>None\<close>.
\<close>

theorem wait_for_frame_timeout_counterexample:
  "fst (wait_for_frame [] (snd (StreamingOutput_write demo_frame StreamingOutput_init)))
     = Some demo_frame \<and>
   fst (MockCamera_get_frame [] mock_with_frame) = Inr (Some demo_frame) \<and>
   Some demo_frame \<noteq> (None :: bytes option)"
  by (simp add: wait_for_frame_def StreamingOutput_write_def StreamingOutput_init_def
        MockCamera_get_frame_def mock_with_frame_def generate_frame_def)

text \<open>
  Claim C8, amended. \<open>wait_for_frame\<close> and both \<open>get_frame\<close> methods never raise. When no
  frame is published during the call they return what the slot holds: \<open>None\<close> if no frame
  has ever been published, otherwise the frame published last before the call. When
  frames are published during the call they return the last of them.
\<close>

theorem wait_for_frame_result:
  "fst (wait_for_frame written out)
     = (if written = [] then frame out else Some (last written)) \<and>
   fst (RealCamera_get_frame written r)
     = Inr (case streaming_output r of
              None \<Rightarrow> None
            | Some out \<Rightarrow> if written = [] then frame out else Some (last written)) \<and>
   fst (MockCamera_get_frame generated m)
     = Inr (if generated = [] then current_frame m else Some (last generated))"
  by (simp add: wait_for_frame_def RealCamera_get_frame_def MockCamera_get_frame_def
        frame_after_writes current_frame_after_generated Let_def split: option.splits)

section \<open>Coercion of settings\<close>

text \<open>
  Claim C4 says that \<open>_coerce_settings\<close> never raises. Its handler catches \<open>ValueError\<close>
  and \<open>TypeError\<close> only, and \<open>int\<close> of an infinite float and \<open>float\<close> of an integer beyond
  the range of a float raise \<open>OverflowError\<close>: on these inputs the call raises, with any
  parser of strings.
\<close>

theorem coerce_settings_overflow_raises:
  "coerce_settings P [(''ExposureTime'', PFloat PosInf)] = Inl OverflowError \<and>
   coerce_settings P [(''AnalogueGain'', PInt (10 ^ 400))] = Inl OverflowError \<and>
   coerce_settings P [(''ColourGains'', PList [PInt 1, PInt (10 ^ 400)])] = Inl OverflowError"
  by (simp add: coerce_settings_def CONTROL_META_def float_overflow_bound_def)

lemma dict_set_fresh:
  "key \<notin> fst ` set d \<Longrightarrow> dict_set key val d = d @ [(key, val)]"
  unfolding dict_set_def by (induction d) auto

lemma coerce_value_has_type: "has_type t v \<Longrightarrow> coerce_value P t v = Inr (Some v)"
  by (induction t v rule: has_type.induct) auto

lemma coerce_value_result: "coerce_value P t val = Inr (Some v) \<Longrightarrow> has_type t v"
  by (induction P t val rule: coerce_value.induct) (auto split: sum.splits)

lemma coerce_items_valid:
  assumes "settings_ok raw" "distinct (map fst (out @ raw))"
  shows "coerce_items P raw out = Inr (out @ raw)"
  using assms
proof (induction raw arbitrary: out)
  case Nil
  then show ?case by simp
next
  case (Cons kv raw)
  obtain key val where kv: "kv = (key, val)" by (cases kv)
  from Cons.prems(1) kv obtain t where t: "map_of CONTROL_META key = Some t" "has_type t val"
    and rest: "settings_ok raw"
    by (auto simp: settings_ok_def split: option.splits)
  from Cons.prems(2) kv have fresh: "key \<notin> fst ` set out"
    and dist: "distinct (map fst ((out @ [(key, val)]) @ raw))"
    by auto
  from Cons.IH [OF rest dist] show ?case
    using kv t fresh by (simp add: coerce_value_has_type dict_set_fresh)
qed

lemma map_of_dict_set: "map_of (dict_set key val d) k = (if k = key then Some val else map_of d k)"
  by (simp add: dict_set_def update_conv')

lemma coerce_items_other_key:
  "coerce_items P raw out = Inr res \<Longrightarrow> k \<notin> fst ` set raw \<Longrightarrow> map_of res k = map_of out k"
proof (induction P raw out rule: coerce_items.induct)
  case (1 P out)
  then show ?case by simp
next
  case (2 P key val rest out)
  then show ?case
    by (auto simp: map_of_dict_set split: option.splits sum.splits exn.splits)
qed

lemma coerce_items_valid_key:
  assumes "coerce_items P raw out = Inr res" "distinct (map fst raw)" "(k, v) \<in> set raw"
    "map_of CONTROL_META k = Some t" "has_type t v"
  shows "map_of res k = Some v"
  using assms
proof (induction P raw out rule: coerce_items.induct)
  case (1 P out)
  then show ?case by simp
next
  case (2 P key val rest out)
  show ?case
  proof (cases "key = k")
    case True
    with 2 have "val = v" by (auto simp: image_iff)
    with True 2 have run: "coerce_items P rest (dict_set k v out) = Inr res"
      by (simp add: coerce_value_has_type)
    from 2 True have "k \<notin> fst ` set rest" by auto
    from coerce_items_other_key [OF run this] show ?thesis by (simp add: map_of_dict_set)
  next
    case False
    with 2 show ?thesis
      by (auto split: option.splits sum.splits exn.splits)
  qed
qed

text \<open>
  Claim C6. A dictionary whose keys are controls and whose values already have the
  declared types is returned unchanged, items and order (so coercing twice is coercing
  once); and whatever else a dictionary holds, if the call returns, each such item is in
  the result with its value unchanged.
\<close>

theorem coerce_settings_valid_identity:
  "(settings_ok raw \<and> distinct (map fst raw) \<longrightarrow> coerce_settings P raw = Inr raw) \<and>
   (distinct (map fst raw) \<and> (k, v) \<in> set raw \<and> map_of CONTROL_META k = Some t \<and>
    has_type t v \<and> coerce_settings P raw = Inr out \<longrightarrow> map_of out k = Some v)"
  using coerce_items_valid [of raw "[]" P] coerce_items_valid_key [of P raw "[]" out k v t]
  by (auto simp: coerce_settings_def)

theorem coerce_settings_valid_identity_witness:
  "settings_ok DEFAULT_SETTINGS \<and> distinct (map fst DEFAULT_SETTINGS) \<and>
   (''AnalogueGain'', PFloat (Finite 4)) \<in> set DEFAULT_SETTINGS \<and>
   map_of CONTROL_META ''AnalogueGain'' = Some TFloat \<and>
   has_type TFloat (PFloat (Finite 4)) \<and>
   coerce_settings decimal_parsing DEFAULT_SETTINGS = Inr DEFAULT_SETTINGS \<and>
   map_of DEFAULT_SETTINGS ''AnalogueGain'' = Some (PFloat (Finite 4))"
proof -
  have ok: "settings_ok DEFAULT_SETTINGS"
    by (simp add: settings_ok_def DEFAULT_SETTINGS_def CONTROL_META_def)
  have dist: "distinct (map fst DEFAULT_SETTINGS)"
    by (simp add: DEFAULT_SETTINGS_def)
  have mem: "(''AnalogueGain'', PFloat (Finite 4)) \<in> set DEFAULT_SETTINGS"
    by (simp add: DEFAULT_SETTINGS_def)
  have meta: "map_of CONTROL_META ''AnalogueGain'' = Some TFloat"
    by (simp add: CONTROL_META_def)
  from coerce_settings_valid_identity
         [of DEFAULT_SETTINGS decimal_parsing "''AnalogueGain''" "PFloat (Finite 4)" TFloat
             DEFAULT_SETTINGS]
       ok dist mem meta
  show ?thesis by simp
qed

section \<open>The settings invariant\<close>

lemma preservesD: "preserves g m \<Longrightarrow> g (snd (m s)) = g s"
  by (simp add: preserves_def)

lemma preserves_return [intro!]: "preserves g (return_prog a)"
  by (simp add: preserves_def)

lemma preserves_raise [intro!]: "preserves g (raise_prog e)"
  by (simp add: preserves_def)

lemma preserves_gets [intro!]: "preserves g (gets h)"
  by (simp add: preserves_def)

lemma preserves_modify: "(\<And>s. g (u s) = g s) \<Longrightarrow> preserves g (modify u)"
  by (simp add: preserves_def)

lemma preserves_ext_settings [intro!]: "preserves settings (ext F c)"
  by (simp add: preserves_def ext_apply)

lemma preserves_bind [intro!]:
  "preserves g m \<Longrightarrow> (\<And>a. preserves g (f a)) \<Longrightarrow> preserves g (bind_prog m f)"
  by (auto simp: preserves_def bind_prog_apply split: prod.splits sum.splits)
     (metis snd_conv)+

lemma preserves_seq [intro!]:
  "preserves g m \<Longrightarrow> preserves g n \<Longrightarrow> preserves g (seq_prog m n)"
  by (simp add: seq_prog_def preserves_bind)

lemma preserves_try_pass [intro!]: "preserves g m \<Longrightarrow> preserves g (try_pass m)"
  by (auto simp: preserves_def try_pass_def split: prod.splits) (metis snd_conv)

lemma preserves_settings_configure_preview [intro!]: "preserves settings (configure_preview F)"
  unfolding configure_preview_def by (intro preserves_bind preserves_seq preserves_gets
      preserves_ext_settings preserves_modify) simp

lemma preserves_settings_start_recording_internal [intro!]:
  "preserves settings (start_recording_internal F)"
  unfolding start_recording_internal_def by (intro preserves_bind preserves_seq preserves_gets
      preserves_ext_settings preserves_modify) simp

lemma preserves_settings_Real_capture_photo:
  "preserves settings (RealCamera_capture_photo F timestamp capture_raw)"
  unfolding RealCamera_capture_photo_def Let_def
  by (intro preserves_bind preserves_seq preserves_gets preserves_ext_settings
      preserves_settings_configure_preview)
     (auto intro: preserves_settings_start_recording_internal)

lemma preserves_settings_Real_start_video:
  "preserves settings (RealCamera_start_video F timestamp fps)"
  unfolding RealCamera_start_video_def Let_def
  by (auto intro!: preserves_modify)

lemma preserves_settings_Real_stop_video: "preserves settings (RealCamera_stop_video F)"
  unfolding RealCamera_stop_video_def
  by (auto intro!: preserves_modify)

lemma preserves_settings_Real_close: "preserves settings (RealCamera_close F)"
  unfolding RealCamera_close_def by auto

lemma preserves_settings_Real_get_frame: "preserves settings (RealCamera_get_frame written)"
  unfolding RealCamera_get_frame_def Let_def
  by (auto intro!: preserves_modify split: option.splits prod.splits)

lemma preserves_settings_Mock_capture_photo:
  "preserves settings (MockCamera_capture_photo F timestamp capture_raw)"
  unfolding MockCamera_capture_photo_def Let_def
  by (auto split: option.splits)

lemma preserves_settings_Mock_start_video:
  "preserves settings (MockCamera_start_video F timestamp fps)"
  unfolding MockCamera_start_video_def Let_def
  by (auto intro!: preserves_modify)

lemma preserves_settings_Mock_stop_video: "preserves settings MockCamera_stop_video"
  unfolding MockCamera_stop_video_def
  by (auto intro!: preserves_modify)

lemma settings_fold_generate_frame: "settings (fold generate_frame generated m) = settings m"
  by (induction generated arbitrary: m) (auto simp: generate_frame_def)

lemma preserves_settings_Mock_get_frame: "preserves settings (MockCamera_get_frame generated)"
  unfolding MockCamera_get_frame_def
  by (auto intro!: preserves_modify simp: settings_fold_generate_frame)

lemma settings_ok_dict_set:
  assumes "settings_ok d" "map_of CONTROL_META key = Some t" "has_type t val"
  shows "settings_ok (dict_set key val d)"
  using assms unfolding dict_set_def settings_ok_def
  by (induction d) auto

lemma settings_ok_coerce_items:
  "coerce_items P raw out = Inr res \<Longrightarrow> settings_ok out \<Longrightarrow> settings_ok res"
proof (induction raw arbitrary: out)
  case Nil
  then show ?case by simp
next
  case (Cons kv raw)
  obtain key val where kv: "kv = (key, val)" by (cases kv)
  show ?case
  proof (cases "map_of CONTROL_META key")
    case None
    with Cons kv show ?thesis by simp
  next
    case (Some t)
    note meta = this
    show ?thesis
    proof (cases "coerce_value P t val")
      case (Inl e)
      with Cons kv meta show ?thesis by (cases e) simp_all
    next
      case (Inr assigned)
      note coerced = this
      show ?thesis
      proof (cases assigned)
        case None
        with Cons kv meta coerced show ?thesis by simp
      next
        case (Some v)
        with coerced have "has_type t v" by (simp add: coerce_value_result)
        with Cons.prems(2) meta have "settings_ok (dict_set key v out)"
          by (simp add: settings_ok_dict_set)
        moreover from Cons.prems(1) kv meta coerced Some
        have "coerce_items P raw (dict_set key v out) = Inr res" by simp
        ultimately show ?thesis using Cons.IH by blast
      qed
    qed
  qed
qed

lemma settings_ok_coerce_settings: "coerce_settings P raw = Inr res \<Longrightarrow> settings_ok res"
  unfolding coerce_settings_def
  by (erule settings_ok_coerce_items) (simp add: settings_ok_def)

lemma settings_ok_dict_update:
  "settings_ok d \<Longrightarrow> settings_ok other \<Longrightarrow> settings_ok (dict_update d other)"
  unfolding dict_update_def
proof (induction other arbitrary: d)
  case Nil
  then show ?case by simp
next
  case (Cons kv other)
  obtain key val where kv: "kv = (key, val)" by (cases kv)
  from Cons.prems(2) kv obtain t where "map_of CONTROL_META key = Some t" "has_type t val"
    and rest: "settings_ok other"
    by (auto simp: settings_ok_def split: option.splits)
  with Cons.prems(1) have "settings_ok (dict_set key val d)"
    by (auto intro: settings_ok_dict_set)
  from Cons.IH [OF this rest] kv show ?case by simp
qed

lemma settings_ok_Real_apply_settings:
  assumes "settings_ok (settings r)"
  shows "settings_ok (settings (snd (RealCamera_apply_settings P F new r)))"
proof (cases "coerce_settings P new")
  case (Inl e)
  with assms show ?thesis by (simp add: RealCamera_apply_settings_def)
next
  case (Inr coerced)
  with assms show ?thesis
    by (simp add: RealCamera_apply_settings_def ext_apply bind_prog_apply seq_prog_def
          settings_ok_dict_update settings_ok_coerce_settings)
qed

lemma settings_ok_Real_apply_preset:
  assumes "settings_ok (settings r)"
  shows "settings_ok (settings (snd (RealCamera_apply_preset P F name r)))"
  using assms
  by (simp add: RealCamera_apply_preset_def settings_ok_Real_apply_settings
        split: option.splits)

lemma settings_ok_Mock_apply_settings:
  assumes "settings_ok (settings m)"
  shows "settings_ok (settings (snd (MockCamera_apply_settings P new m)))"
proof (cases "coerce_settings P new")
  case (Inl e)
  with assms show ?thesis by (simp add: MockCamera_apply_settings_def)
next
  case (Inr coerced)
  with assms show ?thesis
    by (simp add: MockCamera_apply_settings_def settings_ok_dict_update
          settings_ok_coerce_settings)
qed

lemma settings_ok_Mock_apply_preset:
  assumes "settings_ok (settings m)"
  shows "settings_ok (settings (snd (MockCamera_apply_preset P name m)))"
  using assms
  by (simp add: MockCamera_apply_preset_def settings_ok_Mock_apply_settings
        split: option.splits)

lemma settings_ok_RealCamera_call:
  assumes "settings_ok (settings r)"
  shows "settings_ok (settings (RealCamera_call P F call r))"
proof (cases call)
  case (Apply_settings new)
  with assms show ?thesis by (simp add: settings_ok_Real_apply_settings)
next
  case (Apply_preset name)
  with assms show ?thesis by (simp add: settings_ok_Real_apply_preset)
qed (use assms in \<open>simp_all add: RealCamera_get_settings_def RealCamera_is_recording_def
      preserves_settings_Real_capture_photo [THEN preservesD]
      preserves_settings_Real_start_video [THEN preservesD]
      preserves_settings_Real_stop_video [THEN preservesD]
      preserves_settings_Real_close [THEN preservesD]
      preserves_settings_Real_get_frame [THEN preservesD]\<close>)

lemma settings_ok_MockCamera_call:
  assumes "settings_ok (settings m)"
  shows "settings_ok (settings (MockCamera_call P F call m))"
proof (cases call)
  case (Apply_settings new)
  with assms show ?thesis by (simp add: settings_ok_Mock_apply_settings)
next
  case (Apply_preset name)
  with assms show ?thesis by (simp add: settings_ok_Mock_apply_preset)
qed (use assms in \<open>simp_all add: MockCamera_get_settings_def MockCamera_is_recording_def
      MockCamera_close_def
      preserves_settings_Mock_capture_photo [THEN preservesD]
      preserves_settings_Mock_start_video [THEN preservesD]
      preserves_settings_Mock_stop_video [THEN preservesD]
      preserves_settings_Mock_get_frame [THEN preservesD]\<close>)

lemma settings_ok_RealCamera_session:
  "settings_ok (settings r) \<Longrightarrow> settings_ok (settings (RealCamera_session P F calls r))"
  unfolding RealCamera_session_def
  by (induction calls arbitrary: r) (simp_all add: settings_ok_RealCamera_call)

lemma settings_ok_MockCamera_session:
  "settings_ok (settings m) \<Longrightarrow> settings_ok (settings (MockCamera_session P F calls m))"
  unfolding MockCamera_session_def
  by (induction calls arbitrary: m) (simp_all add: settings_ok_MockCamera_call)

lemma settings_ok_DEFAULT_SETTINGS: "settings_ok DEFAULT_SETTINGS"
  by (simp add: settings_ok_def DEFAULT_SETTINGS_def CONTROL_META_def)

lemma RealCamera_init_settings:
  assumes "RealCamera_init F dir = Inr r"
  shows "settings r = DEFAULT_SETTINGS"
proof -
  let ?s0 = "\<lparr>capture_dir = dir, settings = DEFAULT_SETTINGS, recording = False,
             recording_path = None, ext_log = [], streaming_output = None\<rparr>"
  let ?m = "seq_prog (ext F (Fs_mkdir dir)) (seq_prog (ext F Cam_open)
              (seq_prog (configure_preview F) (ext F Cam_start)))"
  have "preserves settings ?m" by (intro preserves_seq preserves_ext_settings
        preserves_settings_configure_preview)
  then have "settings (snd (?m ?s0)) = settings ?s0" by (rule preservesD)
  moreover obtain res s1 where run: "?m ?s0 = (res, s1)" by (cases "?m ?s0")
  moreover have "s1 = r"
    using assms unfolding RealCamera_init_def run by (cases res) simp_all
  ultimately show ?thesis by simp
qed

lemma MockCamera_init_settings:
  assumes "MockCamera_init F dir = Inr m"
  shows "settings m = DEFAULT_SETTINGS"
  using assms
  by (auto simp: MockCamera_init_def ext_apply split: if_splits)

text \<open>
  Claim C5. A camera object starts with \<open>DEFAULT_SETTINGS\<close>, and after every sequence of
  calls of the public interface (\<open>apply_settings\<close> and \<open>apply_preset\<close> among them, each
  call returning or raising, whatever the collaborators do) every stored key is a key of
  \<open>CONTROL_META\<close> and every stored value has the type declared for its key: a bool for
  \<open>bool\<close>, an int for \<open>int\<close> and \<open>select\<close>, a float for \<open>float\<close>, a tuple of two floats for
  \<open>tuple2\<close>. This holds for the real and for the mock camera.
\<close>

theorem settings_invariant:
  "(RealCamera_init F dir = Inr r \<longrightarrow>
      settings r = DEFAULT_SETTINGS \<and>
      settings_ok (settings (RealCamera_session P F' calls r))) \<and>
   (MockCamera_init G dir' = Inr m \<longrightarrow>
      settings m = DEFAULT_SETTINGS \<and>
      settings_ok (settings (MockCamera_session P G' calls m)))"
  using RealCamera_init_settings [of F dir r] MockCamera_init_settings [of G dir' m]
    settings_ok_RealCamera_session [of r P F' calls]
    settings_ok_MockCamera_session [of m P G' calls]
    settings_ok_DEFAULT_SETTINGS
  by auto

theorem settings_invariant_witness:
  "RealCamera_init never_fails demo_dir
     = Inr (real_preview\<lparr>ext_log :=
              [Fs_mkdir demo_dir, Cam_open,
               Cam_create_video_configuration PREVIEW_SIZE (Some (640, 360))
                 (Some DEFAULT_SETTINGS),
               Cam_configure, Cam_start_recording MJPEGEncoder FileOutput, Cam_start]\<rparr>) \<and>
   MockCamera_init never_fails demo_dir
     = Inr (mock_preview\<lparr>ext_log := [Fs_mkdir demo_dir]\<rparr>) \<and>
   settings_ok (settings (RealCamera_session decimal_parsing never_fails
      [Apply_preset ''planetary'',
       Apply_settings [(''ExposureTime'', PStr ''2000''), (''Bogus'', PInt 1)],
       Capture_photo ''20260101_000007'' False]
      (real_preview\<lparr>ext_log :=
              [Fs_mkdir demo_dir, Cam_open,
               Cam_create_video_configuration PREVIEW_SIZE (Some (640, 360))
                 (Some DEFAULT_SETTINGS),
               Cam_configure, Cam_start_recording MJPEGEncoder FileOutput, Cam_start]\<rparr>))) \<and>
   settings_ok (settings (MockCamera_session decimal_parsing never_fails
      [Apply_preset ''planetary'',
       Apply_settings [(''ExposureTime'', PStr ''2000''), (''Bogus'', PInt 1)],
       Capture_photo ''20260101_000007'' False]
      (mock_preview\<lparr>ext_log := [Fs_mkdir demo_dir]\<rparr>)))"
proof -
  have real: "RealCamera_init never_fails demo_dir
     = Inr (real_preview\<lparr>ext_log :=
              [Fs_mkdir demo_dir, Cam_open,
               Cam_create_video_configuration PREVIEW_SIZE (Some (640, 360))
                 (Some DEFAULT_SETTINGS),
               Cam_configure, Cam_start_recording MJPEGEncoder FileOutput, Cam_start]\<rparr>)"
    by (simp add: RealCamera_init_def configure_preview_def real_preview_def ext_apply)
  have mock: "MockCamera_init never_fails demo_dir
     = Inr (mock_preview\<lparr>ext_log := [Fs_mkdir demo_dir]\<rparr>)"
    by (simp add: MockCamera_init_def mock_preview_def ext_apply)
  from settings_invariant
         [of never_fails demo_dir
             "real_preview\<lparr>ext_log :=
              [Fs_mkdir demo_dir, Cam_open,
               Cam_create_video_configuration PREVIEW_SIZE (Some (640, 360))
                 (Some DEFAULT_SETTINGS),
               Cam_configure, Cam_start_recording MJPEGEncoder FileOutput, Cam_start]\<rparr>"
             decimal_parsing never_fails
             "[Apply_preset ''planetary'',
               Apply_settings [(''ExposureTime'', PStr ''2000''), (''Bogus'', PInt 1)],
               Capture_photo ''20260101_000007'' False]"
             never_fails demo_dir "mock_preview\<lparr>ext_log := [Fs_mkdir demo_dir]\<rparr>"
             never_fails]
       real mock
  show ?thesis by simp
qed

section \<open>Path traversal\<close>

lemma resolve_relative_outside:
  assumes "resolve H path = Inr rp" "resolve H CAPTURES_DIR = Inr rc" "\<not> prefix rc rp"
  shows "resolve_relative H path CAPTURES_DIR
           = (Inl ValueError, [Resolve path, Resolve CAPTURES_DIR])"
  using assms by (simp add: resolve_relative_def relative_to_def)

lemma resolve_relative_inside:
  assumes "resolve_relative H path CAPTURES_DIR = (Inr rel, acc)"
  shows "\<exists>rp rc. resolve H path = Inr rp \<and> resolve H CAPTURES_DIR = Inr rc \<and> prefix rc rp"
  using assms
  by (auto simp: resolve_relative_def relative_to_def split: sum.splits if_splits)

lemma resolve_relative_accesses:
  assumes "resolve_relative H path CAPTURES_DIR = (res, acc)"
  shows "Serve p \<notin> set acc \<and> Unlink p \<notin> set acc"
  using assms
  by (auto simp: resolve_relative_def split: sum.splits)

lemma download_file_serves_inside:
  assumes "Serve p \<in> set (snd (download_file H CAPTURES_DIR filename))"
  shows "\<exists>rp rc. resolve H p = Inr rp \<and> resolve H CAPTURES_DIR = Inr rc \<and> prefix rc rp"
proof -
  let ?path = "path_div CAPTURES_DIR filename"
  obtain res acc where rr: "resolve_relative H ?path CAPTURES_DIR = (res, acc)"
    by (cases "resolve_relative H ?path CAPTURES_DIR")
  note no = resolve_relative_accesses [OF rr, of p]
  show ?thesis
  proof (cases res)
    case (Inl e)
    with assms rr no show ?thesis
      by (cases e) (simp_all add: download_file_def Let_def)
  next
    case (Inr rel)
    with assms rr no have "p = ?path"
      by (simp add: download_file_def Let_def split: if_splits)
    with resolve_relative_inside rr Inr show ?thesis by blast
  qed
qed

lemma delete_file_unlinks_inside:
  assumes "Unlink p \<in> set (snd (delete_file H CAPTURES_DIR filename))"
  shows "\<exists>rp rc. resolve H p = Inr rp \<and> resolve H CAPTURES_DIR = Inr rc \<and> prefix rc rp"
proof -
  let ?path = "path_div CAPTURES_DIR filename"
  obtain res acc where rr: "resolve_relative H ?path CAPTURES_DIR = (res, acc)"
    by (cases "resolve_relative H ?path CAPTURES_DIR")
  note no = resolve_relative_accesses [OF rr, of p]
  show ?thesis
  proof (cases res)
    case (Inl e)
    with assms rr no show ?thesis
      by (cases e) (simp_all add: delete_file_def Let_def)
  next
    case (Inr rel)
    with assms rr no have "p = ?path"
      by (simp add: delete_file_def Let_def split: if_splits option.splits)
    with resolve_relative_inside rr Inr show ?thesis by blast
  qed
qed

text \<open>
  Claim C10. When the requested name resolves to a path that is not under the resolved
  captures directory, the download and the delete handler both answer 403, and the only
  accesses they have made are the two \<open>resolve\<close> calls of the check: no existence test, no
  read, no deletion, whether or not the escaped path exists. In particular every path a
  handler serves or unlinks resolves to a path under the captures directory.
\<close>

theorem traversal_rejected:
  "(resolve H (path_div CAPTURES_DIR filename) = Inr rp \<and> resolve H CAPTURES_DIR = Inr rc \<and>
    \<not> prefix rc rp \<longrightarrow>
      download_file H CAPTURES_DIR filename
        = (Inr (HTTPException 403 (Text ''Forbidden'')),
           [Resolve (path_div CAPTURES_DIR filename), Resolve CAPTURES_DIR]) \<and>
      delete_file H CAPTURES_DIR filename
        = (Inr (HTTPException 403 (Text ''Forbidden'')),
           [Resolve (path_div CAPTURES_DIR filename), Resolve CAPTURES_DIR])) \<and>
   (Serve p \<in> set (snd (download_file H CAPTURES_DIR filename)) \<or>
    Unlink p \<in> set (snd (delete_file H CAPTURES_DIR filename)) \<longrightarrow>
      (\<exists>rp' rc'. resolve H p = Inr rp' \<and> resolve H CAPTURES_DIR = Inr rc' \<and> prefix rc' rp'))"
proof (intro conjI impI)
  assume "resolve H (path_div CAPTURES_DIR filename) = Inr rp \<and>
    resolve H CAPTURES_DIR = Inr rc \<and> \<not> prefix rc rp"
  then have out: "resolve_relative H (path_div CAPTURES_DIR filename) CAPTURES_DIR
      = (Inl ValueError, [Resolve (path_div CAPTURES_DIR filename), Resolve CAPTURES_DIR])"
    by (simp add: resolve_relative_outside)
  show "download_file H CAPTURES_DIR filename
        = (Inr (HTTPException 403 (Text ''Forbidden'')),
           [Resolve (path_div CAPTURES_DIR filename), Resolve CAPTURES_DIR])"
    by (simp add: download_file_def out)
  show "delete_file H CAPTURES_DIR filename
        = (Inr (HTTPException 403 (Text ''Forbidden'')),
           [Resolve (path_div CAPTURES_DIR filename), Resolve CAPTURES_DIR])"
    by (simp add: delete_file_def out)
next
  assume "Serve p \<in> set (snd (download_file H CAPTURES_DIR filename)) \<or>
    Unlink p \<in> set (snd (delete_file H CAPTURES_DIR filename))"
  then show "\<exists>rp' rc'. resolve H p = Inr rp' \<and> resolve H CAPTURES_DIR = Inr rc' \<and> prefix rc' rp'"
    using download_file_serves_inside delete_file_unlinks_inside by blast
qed

theorem traversal_rejected_witness:
  "resolve (plain_host [[''/'', ''etc'', ''passwd'']]) (path_div demo_dir ''../../../../etc/passwd'')
     = Inr [''/'', ''etc'', ''passwd''] \<and>
   resolve (plain_host [[''/'', ''etc'', ''passwd'']]) demo_dir = Inr demo_dir \<and>
   \<not> prefix demo_dir [''/'', ''etc'', ''passwd''] \<and>
   path_exists (plain_host [[''/'', ''etc'', ''passwd'']]) (path_div demo_dir ''../../../../etc/passwd'') \<and>
   download_file (plain_host [[''/'', ''etc'', ''passwd'']]) demo_dir ''../../../../etc/passwd''
     = (Inr (HTTPException 403 (Text ''Forbidden'')),
        [Resolve (path_div demo_dir ''../../../../etc/passwd''), Resolve demo_dir]) \<and>
   delete_file (plain_host [[''/'', ''etc'', ''passwd'']]) demo_dir ''../../../../etc/passwd''
     = (Inr (HTTPException 403 (Text ''Forbidden'')),
        [Resolve (path_div demo_dir ''../../../../etc/passwd''), Resolve demo_dir]) \<and>
   Serve (demo_dir @ [''a.jpg''])
     \<in> set (snd (download_file (plain_host [demo_dir @ [''a.jpg'']]) demo_dir ''a.jpg'')) \<and>
   prefix demo_dir (demo_dir @ [''a.jpg''])"
proof -
  have esc: "path_div demo_dir ''../../../../etc/passwd''
      = demo_dir @ [''..'', ''..'', ''..'', ''..'', ''etc'', ''passwd'']"
    by (simp add: path_div_def path_root_def parse_path_def)
  have res: "resolve (plain_host [[''/'', ''etc'', ''passwd'']])
               (path_div demo_dir ''../../../../etc/passwd'') = Inr [''/'', ''etc'', ''passwd'']"
    "resolve (plain_host [[''/'', ''etc'', ''passwd'']]) demo_dir = Inr demo_dir"
    "\<not> prefix demo_dir [''/'', ''etc'', ''passwd'']"
    "path_exists (plain_host [[''/'', ''etc'', ''passwd'']])
       (path_div demo_dir ''../../../../etc/passwd'')"
    unfolding esc by (simp_all add: plain_host_def demo_dir_def)
  have inside: "path_div demo_dir ''a.jpg'' = demo_dir @ [''a.jpg'']"
    by (simp add: path_div_def path_root_def parse_path_def)
  have serve: "Serve (demo_dir @ [''a.jpg''])
     \<in> set (snd (download_file (plain_host [demo_dir @ [''a.jpg'']]) demo_dir ''a.jpg''))"
    unfolding download_file_def Let_def inside
    by (simp add: resolve_relative_def relative_to_def plain_host_def demo_dir_def)
  from traversal_rejected
         [of "plain_host [[''/'', ''etc'', ''passwd'']]" demo_dir "''../../../../etc/passwd''"
             "[''/'', ''etc'', ''passwd'']" demo_dir]
       traversal_rejected
         [of "plain_host [demo_dir @ [''a.jpg'']]" demo_dir "''a.jpg''" _ _
             "demo_dir @ [''a.jpg'']"]
       res serve
  show ?thesis by simp
qed

section \<open>The mock camera against the real camera\<close>

text \<open>
  In the same session and with the same arguments the two cameras can differ: before its
  first frame the mock camera returns no \<open>.jpg\<close> path from \<open>capture_photo\<close> where the real
  camera returns one, and a failing camera handle makes \<open>apply_settings\<close> raise on the
  real camera where the mock camera, which has no handle, returns.
\<close>

theorem mock_real_equivalence_counterexample:
  "same_session real_preview mock_preview \<and>
   fst (RealCamera_capture_photo never_fails ''20260101_000007'' False real_preview)
     = Inr [''/var/lib/astrocam/captures/photo_20260101_000007.jpg''] \<and>
   fst (MockCamera_capture_photo never_fails ''20260101_000007'' False mock_preview) = Inr [] \<and>
   fst (RealCamera_apply_settings decimal_parsing always_fails [] real_preview)
     = Inl ExternalError \<and>
   fst (MockCamera_apply_settings decimal_parsing [] mock_preview) = Inr DEFAULT_SETTINGS"
  by (simp add: same_session_def real_preview_def mock_preview_def
        RealCamera_capture_photo_def MockCamera_capture_photo_def configure_preview_def
        RealCamera_apply_settings_def MockCamera_apply_settings_def coerce_settings_def
        dict_update_def always_fails_def demo_dir_def Let_def
        path_div_def path_root_def parse_path_def path_str_def)

lemma equiv_settings:
  assumes "same_session r m" "\<forall>calls c. \<not> F calls c"
  shows "same_outcome (RealCamera_get_settings r) (MockCamera_get_settings m)"
    and "same_outcome (RealCamera_apply_settings P F new r) (MockCamera_apply_settings P new m)"
    and "same_outcome (RealCamera_apply_preset P F name r) (MockCamera_apply_preset P name m)"
  using assms
  by (simp_all add: same_outcome_def same_session_def RealCamera_get_settings_def
        MockCamera_get_settings_def RealCamera_apply_settings_def MockCamera_apply_settings_def
        RealCamera_apply_preset_def MockCamera_apply_preset_def
        split: sum.splits option.splits)

lemma equiv_video:
  assumes "same_session r m" "\<forall>calls c. \<not> F calls c" "\<forall>calls c. \<not> G calls c"
  shows "same_outcome (RealCamera_start_video F timestamp fps r)
           (MockCamera_start_video G timestamp fps m)"
    and "same_outcome (RealCamera_stop_video F r) (MockCamera_stop_video m)"
    and "same_outcome (RealCamera_is_recording r) (MockCamera_is_recording m)"
    and "same_outcome (RealCamera_close F r) (MockCamera_close m)"
  using assms
  by (simp_all add: same_outcome_def same_session_def RealCamera_start_video_def
        MockCamera_start_video_def RealCamera_stop_video_def MockCamera_stop_video_def
        RealCamera_is_recording_def MockCamera_is_recording_def RealCamera_close_def
        MockCamera_close_def start_recording_internal_def configure_preview_def
        try_pass_def ext_apply seq_prog_def bind_prog_apply Let_def)

lemma equiv_capture:
  assumes "same_session r m" "\<forall>calls c. \<not> F calls c" "\<forall>calls c. \<not> G calls c"
    "current_frame m = Some data" "data \<noteq> []"
  shows "same_outcome (RealCamera_capture_photo F timestamp capture_raw r)
           (MockCamera_capture_photo G timestamp capture_raw m)"
  using assms
  by (simp add: same_outcome_def same_session_def RealCamera_capture_photo_def
        MockCamera_capture_photo_def start_recording_internal_def configure_preview_def
        Let_def)

lemma equiv_get_frame:
  assumes "same_session r m" "streaming_output r = Some out" "frame out = current_frame m"
  shows "same_outcome (RealCamera_get_frame written r) (MockCamera_get_frame written m)"
proof -
  have "fst (RealCamera_get_frame written r) = fst (MockCamera_get_frame written m)"
    using assms
    by (simp add: RealCamera_get_frame_def MockCamera_get_frame_def wait_for_frame_def
          frame_after_writes current_frame_after_generated Let_def)
  moreover have "same_session (snd (RealCamera_get_frame written r))
      (snd (MockCamera_get_frame written m))"
    using assms(1)
    by (simp add: same_session_def
          preserves_settings_Real_get_frame [THEN preservesD]
          preserves_settings_Mock_get_frame [THEN preservesD]
          RealCamera_get_frame_def MockCamera_get_frame_def Let_def
          split: option.splits prod.splits)
       (induction written arbitrary: m; simp add: generate_frame_def)
  ultimately show ?thesis by (simp add: same_outcome_def)
qed

text \<open>
  Claim C9, amended. When the collaborators' calls succeed, the real and the mock camera
  called in the same session with the same arguments have the same outcome (the same
  result or the same exception, and states that agree on capture directory, settings,
  recording flag and recording path) for \<open>get_settings\<close>, \<open>apply_settings\<close>, \<open>apply_preset\<close>,
  \<open>start_video\<close>, \<open>stop_video\<close>, \<open>is_recording\<close> and \<open>close\<close>; for \<open>capture_photo\<close> when the
  mock camera holds a non-empty frame; and for \<open>get_frame\<close> when the two frame slots hold
  the same frame and the same frames are published during the call.
\<close>

theorem mock_real_equivalence:
  "same_session r m \<and> (\<forall>calls c. \<not> F calls c) \<and> (\<forall>calls c. \<not> G calls c) \<longrightarrow>
     same_outcome (RealCamera_get_settings r) (MockCamera_get_settings m) \<and>
     same_outcome (RealCamera_apply_settings P F new r) (MockCamera_apply_settings P new m) \<and>
     same_outcome (RealCamera_apply_preset P F name r) (MockCamera_apply_preset P name m) \<and>
     same_outcome (RealCamera_start_video F timestamp fps r)
       (MockCamera_start_video G timestamp fps m) \<and>
     same_outcome (RealCamera_stop_video F r) (MockCamera_stop_video m) \<and>
     same_outcome (RealCamera_is_recording r) (MockCamera_is_recording m) \<and>
     same_outcome (RealCamera_close F r) (MockCamera_close m) \<and>
     (current_frame m = Some data \<and> data \<noteq> [] \<longrightarrow>
        same_outcome (RealCamera_capture_photo F timestamp capture_raw r)
          (MockCamera_capture_photo G timestamp capture_raw m)) \<and>
     (streaming_output r = Some out \<and> frame out = current_frame m \<longrightarrow>
        same_outcome (RealCamera_get_frame written r) (MockCamera_get_frame written m))"
proof (rule impI)
  assume "same_session r m \<and> (\<forall>calls c. \<not> F calls c) \<and> (\<forall>calls c. \<not> G calls c)"
  then have s: "same_session r m" and f: "\<forall>calls c. \<not> F calls c"
    and g: "\<forall>calls c. \<not> G calls c"
    by blast+
  show "same_outcome (RealCamera_get_settings r) (MockCamera_get_settings m) \<and>
     same_outcome (RealCamera_apply_settings P F new r) (MockCamera_apply_settings P new m) \<and>
     same_outcome (RealCamera_apply_preset P F name r) (MockCamera_apply_preset P name m) \<and>
     same_outcome (RealCamera_start_video F timestamp fps r)
       (MockCamera_start_video G timestamp fps m) \<and>
     same_outcome (RealCamera_stop_video F r) (MockCamera_stop_video m) \<and>
     same_outcome (RealCamera_is_recording r) (MockCamera_is_recording m) \<and>
     same_outcome (RealCamera_close F r) (MockCamera_close m) \<and>
     (current_frame m = Some data \<and> data \<noteq> [] \<longrightarrow>
        same_outcome (RealCamera_capture_photo F timestamp capture_raw r)
          (MockCamera_capture_photo G timestamp capture_raw m)) \<and>
     (streaming_output r = Some out \<and> frame out = current_frame m \<longrightarrow>
        same_outcome (RealCamera_get_frame written r) (MockCamera_get_frame written m))"
    using equiv_settings [OF s f] equiv_video [OF s f g] equiv_capture [OF s f g]
      equiv_get_frame [OF s]
    by blast
qed

theorem mock_real_equivalence_witness:
  "same_session
     (real_preview\<lparr>streaming_output := Some \<lparr>frame = Some demo_frame\<rparr>\<rparr>) mock_with_frame \<and>
   (\<forall>calls c. \<not> never_fails calls c) \<and>
   current_frame mock_with_frame = Some demo_frame \<and> demo_frame \<noteq> [] \<and>
   streaming_output (real_preview\<lparr>streaming_output := Some \<lparr>frame = Some demo_frame\<rparr>\<rparr>)
     = Some \<lparr>frame = Some demo_frame\<rparr> \<and>
   frame \<lparr>frame = Some demo_frame\<rparr> = current_frame mock_with_frame \<and>
   same_outcome
     (RealCamera_start_video never_fails ''20260101_000007'' 25
        (real_preview\<lparr>streaming_output := Some \<lparr>frame = Some demo_frame\<rparr>\<rparr>))
     (MockCamera_start_video never_fails ''20260101_000007'' 25 mock_with_frame) \<and>
   same_outcome
     (RealCamera_capture_photo never_fails ''20260101_000007'' True
        (real_preview\<lparr>streaming_output := Some \<lparr>frame = Some demo_frame\<rparr>\<rparr>))
     (MockCamera_capture_photo never_fails ''20260101_000007'' True mock_with_frame) \<and>
   same_outcome
     (RealCamera_get_frame []
        (real_preview\<lparr>streaming_output := Some \<lparr>frame = Some demo_frame\<rparr>\<rparr>))
     (MockCamera_get_frame [] mock_with_frame)"
proof -
  have st: "same_session
     (real_preview\<lparr>streaming_output := Some \<lparr>frame = Some demo_frame\<rparr>\<rparr>) mock_with_frame"
    "current_frame mock_with_frame = Some demo_frame" "demo_frame \<noteq> []"
    by (simp_all add: same_session_def real_preview_def mock_with_frame_def mock_preview_def
          generate_frame_def demo_frame_def)
  from mock_real_equivalence
         [of "real_preview\<lparr>streaming_output := Some \<lparr>frame = Some demo_frame\<rparr>\<rparr>"
             mock_with_frame never_fails never_fails decimal_parsing "[]" "''planetary''"
             "''20260101_000007''" 25 demo_frame True "\<lparr>frame = Some demo_frame\<rparr>" "[]"]
       st
  show ?thesis by simp
qed

end
